theory Spec2Isabelle
  imports Complex_Main
begin

section \<open>Strings of the .NET runtime\<close>

text \<open>
  A \<open>string\<close> reference of .NET is a \<open>string option\<close>: \<open>None\<close> is \<open>null\<close>. Characters are
  the 8-bit characters of HOL, read as the code points U+0000 to U+00FF; on that range
  \<open>Char.IsWhiteSpace\<close> holds for the space, U+0009 to U+000D, U+0085 and U+00A0.
\<close>

definition IsWhiteSpace :: "char \<Rightarrow> bool" where
  "IsWhiteSpace c =
     (c = CHR 0x20 \<or> c = CHR 0x09 \<or> c = CHR 0x0A \<or> c = CHR 0x0B \<or> c = CHR 0x0C
      \<or> c = CHR 0x0D \<or> c = CHR 0x85 \<or> c = CHR 0xA0)"

fun IsNullOrWhiteSpace :: "string option \<Rightarrow> bool" where
  "IsNullOrWhiteSpace None = True"
| "IsNullOrWhiteSpace (Some s) = list_all IsWhiteSpace s"

text \<open>
  \<open>String.Replace(oldValue, newValue)\<close>: every occurrence of \<open>oldValue\<close>, found from
  left to right without overlap, is replaced. The runtime rejects an empty \<open>oldValue\<close>;
  the program only passes one-character strings.
\<close>

function Replace :: "string \<Rightarrow> string \<Rightarrow> string \<Rightarrow> string" where
  "Replace [] old new = []"
| "Replace (c # cs) old new =
     (if old \<noteq> [] \<and> take (length old) (c # cs) = old
      then new @ Replace (drop (length old) (c # cs)) old new
      else c # Replace cs old new)"
  by pat_completeness auto
termination
  by (relation "measure (\<lambda>(s, old, new). length s)") auto

text \<open>
  \<open>ToUpper\<close> and \<open>ToLower\<close> on the letters A to Z. Other characters are left as they
  are: their casing, which follows the culture of the thread, is outside the model.
\<close>

definition ToUpperChar :: "char \<Rightarrow> char" where
  "ToUpperChar c =
     (case map_of (zip ''abcdefghijklmnopqrstuvwxyz'' ''ABCDEFGHIJKLMNOPQRSTUVWXYZ'') c of
        Some u \<Rightarrow> u | None \<Rightarrow> c)"

definition ToLowerChar :: "char \<Rightarrow> char" where
  "ToLowerChar c =
     (case map_of (zip ''ABCDEFGHIJKLMNOPQRSTUVWXYZ'' ''abcdefghijklmnopqrstuvwxyz'') c of
        Some l \<Rightarrow> l | None \<Rightarrow> c)"

definition ToUpper :: "string \<Rightarrow> string" where
  "ToUpper s = map ToUpperChar s"

definition ToLower :: "string \<Rightarrow> string" where
  "ToLower s = map ToLowerChar s"

text \<open>Decimal rendering of an integer, as string interpolation of an \<open>int\<close> gives it.\<close>

definition digit_char :: "nat \<Rightarrow> char" where
  "digit_char d = ''0123456789'' ! d"

fun string_of_nat :: "nat \<Rightarrow> string" where
  "string_of_nat n =
     (if n < 10 then [digit_char n] else string_of_nat (n div 10) @ [digit_char (n mod 10)])"

declare string_of_nat.simps [simp del]

definition string_of_int :: "int \<Rightarrow> string" where
  "string_of_int i = (if i < 0 then CHR ''-'' # string_of_nat (nat (- i)) else string_of_nat (nat i))"

text \<open>
  A \<open>Dictionary\<close> is the list of its entries in insertion order; the indexer's setter
  overwrites the entry of an existing key in place and appends a new key at the end.
\<close>

fun dict_set :: "('k \<times> 'v) list \<Rightarrow> 'k \<Rightarrow> 'v \<Rightarrow> ('k \<times> 'v) list" where
  "dict_set [] k v = [(k, v)]"
| "dict_set ((k', v') # kvs) k v =
     (if k' = k then (k, v) # kvs else (k', v') # dict_set kvs k v)"

section \<open>The data model of the server\<close>

text \<open>
  The classes of the namespace \<open>Models\<close>, read off the code that uses them: the members
  are those the services read or write, with the types the object initialisers of
  \<open>ConfigController.GetTemplate\<close> and the tests in the services give them. A member the
  services test against \<open>null\<close> (or pass to \<open>IsNullOrWhiteSpace\<close>) is an option; a member
  they dereference without a test is taken as never \<open>null\<close>. Each field keeps the name of
  its property behind a prefix of the class, since two records cannot share a field name.
\<close>

record RequestMatcher =
  EqualTo :: "string option"
  Contains :: "string option"
  Matches :: "string option"

record EqualToJsonPattern =
  Json :: string
  IgnoreExtraElements :: "bool option"
  IgnoreArrayOrder :: "bool option"

record RequestBodyPattern =
  EqualToJson :: "EqualToJsonPattern option"
  MatchesJsonPath :: "string option"

record MockRequest =
  mq_Method :: "string option"
  mq_Url :: "string option"
  mq_UrlPattern :: "string option"
  mq_UrlPath :: "string option"
  mq_UrlPathPattern :: "string option"
  mq_PathTemplate :: "string option"
  mq_Headers :: "(string \<times> RequestMatcher) list option"
  mq_BodyPatterns :: "RequestBodyPattern list option"

record ResponseBody =
  rb_Type :: string
  rb_Value :: "string option"
  rb_FileName :: "string option"

record MockResponse =
  mp_Status :: int
  mp_Headers :: "(string \<times> string) list option"
  mp_Body :: "ResponseBody option"
  mp_FixedDelayMilliseconds :: "int option"
  mp_ProxyBaseUrl :: "string option"

record ScenarioConfig =
  sc_Name :: "string option"
  sc_RequiredState :: "string option"
  sc_NewState :: "string option"

record MockConfig =
  mc_Priority :: "int option"
  mc_Request :: MockRequest
  mc_Response :: MockResponse
  mc_Scenario :: "ScenarioConfig option"

record AuthConfig =
  au_Type :: string
  au_Username :: "string option"
  au_Password :: "string option"
  au_Token :: "string option"

record TargetConfig =
  tg_BaseUrl :: "string option"
  tg_Auth :: "AuthConfig option"

record DefaultsConfig =
  df_Priority :: "int option"
  df_Headers :: "(string \<times> string) list option"

record ATOMConfig =
  ac_Version :: "string option"
  ac_Target :: "TargetConfig option"
  ac_Defaults :: "DefaultsConfig option"
  ac_Mocks :: "MockConfig list option"

text \<open>
  The values the transformer stores under \<open>object\<close>: an anonymous object with the one
  property \<open>equalTo\<close> or \<open>matchesJsonPath\<close>, or a dictionary.
\<close>

datatype header_matcher = AnonEqualTo string | MatcherDictionary "(string \<times> string) list"

datatype obj = ObjString string | ObjBool bool

datatype body_pattern = PatternDictionary "(string \<times> obj) list" | AnonMatchesJsonPath string

text \<open>
  A JSON value, as a \<open>JsonElement\<close> of the server or a value of the client holds it. An
  object is the list of its own properties in enumeration order. Numbers are the rationals:
  the rounding of floating point is outside the model.
\<close>

datatype json =
    JUndefined
  | JNull
  | JBool bool
  | JNumber rat
  | JString string
  | JArray "json list"
  | JObject "(string \<times> json) list"

record WiremockRequest =
  wq_Method :: "string option"
  wq_Url :: "string option"
  wq_UrlPattern :: "string option"
  wq_Headers :: "(string \<times> header_matcher) list option"
  wq_BodyPatterns :: "body_pattern list option"

record WiremockResponse =
  wp_Status :: int
  wp_Headers :: "(string \<times> string) list option"
  wp_Body :: "string option"
  wp_JsonBody :: "json option"
  wp_BodyFileName :: "string option"

record WiremockMapping =
  wm_Id :: "string option"
  wm_Priority :: "int option"
  wm_ScenarioName :: "string option"
  wm_RequiredScenarioState :: "string option"
  wm_NewScenarioState :: "string option"
  wm_Request :: WiremockRequest
  wm_Response :: WiremockResponse

record JsonConfig =
  jc_Name :: "string option"
  jc_Version :: "string option"
  jc_BaseUrl :: "string option"
  jc_Mappings :: "WiremockMapping list option"

record ValidationError =
  Path :: string
  Message :: string
  Severity :: string

record ValidationResult =
  IsValid :: bool
  Errors :: "ValidationError list"
  Warnings :: "ValidationError list"

text \<open>An exception: whether it is a \<open>JsonException\<close>, and its message.\<close>

datatype exn = JsonException string | OtherException string

fun exn_Message :: "exn \<Rightarrow> string" where
  "exn_Message (JsonException m) = m"
| "exn_Message (OtherException m) = m"

definition NullReferenceException :: exn where
  "NullReferenceException =
     OtherException ''Object reference not set to an instance of an object.''"

section \<open>MappingService\<close>

subsection \<open>ConvertToWiremockMapping\<close>

text \<open>
  The objects \<open>new WiremockRequest\<close> and \<open>new WiremockResponse\<close> before their initialisers
  run. A reference member not assigned is \<open>null\<close>: the services read
  \<open>Request.Url ?? Request.UrlPattern\<close> and test the bodies against \<open>null\<close>, and the
  transformer assigns the headers only when there are some.
\<close>

definition new_WiremockRequest :: WiremockRequest where
  "new_WiremockRequest =
     \<lparr>wq_Method = None, wq_Url = None, wq_UrlPattern = None, wq_Headers = None,
      wq_BodyPatterns = None\<rparr>"

definition new_WiremockResponse :: WiremockResponse where
  "new_WiremockResponse =
     \<lparr>wp_Status = 0, wp_Headers = None, wp_Body = None, wp_JsonBody = None,
      wp_BodyFileName = None\<rparr>"

text \<open>The chain that sets the URL matching of the request (lines 107 to 129).\<close>

definition SetUrlMatching :: "MockRequest \<Rightarrow> WiremockRequest \<Rightarrow> WiremockRequest" where
  "SetUrlMatching r w =
     (if \<not> IsNullOrWhiteSpace (mq_Url r) then w\<lparr>wq_Url := mq_Url r\<rparr>
      else if \<not> IsNullOrWhiteSpace (mq_UrlPattern r) then w\<lparr>wq_UrlPattern := mq_UrlPattern r\<rparr>
      else if \<not> IsNullOrWhiteSpace (mq_UrlPath r) then w\<lparr>wq_Url := mq_UrlPath r\<rparr>
      else if \<not> IsNullOrWhiteSpace (mq_UrlPathPattern r)
        then w\<lparr>wq_UrlPattern := mq_UrlPathPattern r\<rparr>
      else if \<not> IsNullOrWhiteSpace (mq_PathTemplate r)
        then w\<lparr>wq_UrlPattern :=
               map_option (\<lambda>t. Replace (Replace t ''{'' ''([^/]+)'') ''}'' [])
                 (mq_PathTemplate r)\<rparr>
      else w)"

text \<open>The matcher dictionary of one request header (lines 148 to 154).\<close>

definition add_matcher ::
  "(string \<times> string) list \<Rightarrow> string \<Rightarrow> string option \<Rightarrow> (string \<times> string) list" where
  "add_matcher d k v =
     (case v of None \<Rightarrow> d
      | Some s \<Rightarrow> if IsNullOrWhiteSpace (Some s) then d else dict_set d k s)"

definition headerMatcher :: "RequestMatcher \<Rightarrow> (string \<times> string) list" where
  "headerMatcher m =
     add_matcher (add_matcher (add_matcher [] ''equalTo'' (EqualTo m)) ''contains'' (Contains m))
       ''matches'' (Matches m)"

definition default_headers :: "ATOMConfig \<Rightarrow> (string \<times> string) list" where
  "default_headers config =
     (case ac_Defaults config of None \<Rightarrow> []
      | Some d \<Rightarrow> (case df_Headers d of None \<Rightarrow> [] | Some hs \<Rightarrow> hs))"

definition request_headers :: "MockConfig \<Rightarrow> ATOMConfig \<Rightarrow> (string \<times> header_matcher) list" where
  "request_headers mock config =
     (let headers = foldl (\<lambda>h (k, v). dict_set h k (AnonEqualTo v)) [] (default_headers config)
      in case mq_Headers (mc_Request mock) of None \<Rightarrow> headers
         | Some hs \<Rightarrow>
             foldl (\<lambda>h (k, m). dict_set h k (MatcherDictionary (headerMatcher m))) headers hs)"

definition convert_body_pattern :: "RequestBodyPattern \<Rightarrow> body_pattern list" where
  "convert_body_pattern pattern =
     (case EqualToJson pattern of
        Some e \<Rightarrow>
          (let b0 = [(''equalToJson'', ObjString (Json e))];
               b1 = (case IgnoreExtraElements e of None \<Rightarrow> b0
                     | Some b \<Rightarrow> dict_set b0 ''ignoreExtraElements'' (ObjBool b));
               b2 = (case IgnoreArrayOrder e of None \<Rightarrow> b1
                     | Some b \<Rightarrow> dict_set b1 ''ignoreArrayOrder'' (ObjBool b))
           in [PatternDictionary b2])
      | None \<Rightarrow>
          (case MatchesJsonPath pattern of None \<Rightarrow> []
           | Some p \<Rightarrow> if IsNullOrWhiteSpace (Some p) then [] else [AnonMatchesJsonPath p]))"

definition request_body_patterns :: "MockConfig \<Rightarrow> body_pattern list option" where
  "request_body_patterns mock =
     (case mq_BodyPatterns (mc_Request mock) of None \<Rightarrow> None
      | Some ps \<Rightarrow> if length ps > 0 then Some (concat (map convert_body_pattern ps)) else None)"

definition response_headers :: "MockConfig \<Rightarrow> ATOMConfig \<Rightarrow> (string \<times> string) list" where
  "response_headers mock config =
     (let responseHeaders = foldl (\<lambda>h (k, v). dict_set h k v) [] (default_headers config)
      in case mp_Headers (mc_Response mock) of None \<Rightarrow> responseHeaders
         | Some hs \<Rightarrow> foldl (\<lambda>h (k, v). dict_set h k v) responseHeaders hs)"

definition response_body :: "MockConfig \<Rightarrow> WiremockResponse \<Rightarrow> WiremockResponse" where
  "response_body mock w =
     (case mp_Body (mc_Response mock) of None \<Rightarrow> w
      | Some b \<Rightarrow>
          if rb_Type b = ''inline'' then w\<lparr>wp_Body := rb_Value b\<rparr>
          else if rb_Type b = ''file'' then w\<lparr>wp_BodyFileName := rb_FileName b\<rparr>
          else w)"

text \<open>
  \<open>ConvertToWiremockMapping\<close>; its first argument is the string of the \<open>Guid.NewGuid()\<close>
  of line 94.
\<close>

definition ConvertToWiremockMapping :: "string \<Rightarrow> MockConfig \<Rightarrow> ATOMConfig \<Rightarrow> WiremockMapping" where
  "ConvertToWiremockMapping newGuid mock config =
     (let request0 = SetUrlMatching (mc_Request mock)
                       (new_WiremockRequest\<lparr>wq_Method := mq_Method (mc_Request mock)\<rparr>);
          headers = request_headers mock config;
          request1 = (if length headers > 0 then request0\<lparr>wq_Headers := Some headers\<rparr>
                      else request0);
          request2 = (case request_body_patterns mock of None \<Rightarrow> request1
                      | Some ps \<Rightarrow> request1\<lparr>wq_BodyPatterns := Some ps\<rparr>);
          response0 = new_WiremockResponse\<lparr>wp_Status := mp_Status (mc_Response mock)\<rparr>;
          responseHeaders = response_headers mock config;
          response1 = (if length responseHeaders > 0
                       then response0\<lparr>wp_Headers := Some responseHeaders\<rparr> else response0)
      in \<lparr>wm_Id = Some newGuid,
          wm_Priority = (case mc_Priority mock of Some p \<Rightarrow> Some p
                         | None \<Rightarrow> (case ac_Defaults config of None \<Rightarrow> None
                                    | Some d \<Rightarrow> df_Priority d)),
          wm_ScenarioName = (case mc_Scenario mock of None \<Rightarrow> None | Some s \<Rightarrow> sc_Name s),
          wm_RequiredScenarioState =
            (case mc_Scenario mock of None \<Rightarrow> None | Some s \<Rightarrow> sc_RequiredState s),
          wm_NewScenarioState =
            (case mc_Scenario mock of None \<Rightarrow> None | Some s \<Rightarrow> sc_NewState s),
          wm_Request = request2,
          wm_Response = response_body mock response1\<rparr>)"

subsection \<open>The store and the generation of mappings\<close>

text \<open>
  The state of the service: the dictionary \<open>_mappings\<close>, and how many GUIDs the runtime
  has handed out. The strings of the successive \<open>Guid.NewGuid()\<close> are a parameter
  \<open>guid\<close> of every operation that draws one.
\<close>

record MappingService =
  drawn :: nat
  mappings :: "string \<Rightarrow> WiremockMapping option"

definition NewGuid :: "(nat \<Rightarrow> string) \<Rightarrow> MappingService \<Rightarrow> string \<times> MappingService" where
  "NewGuid guid st = (guid (drawn st), st\<lparr>drawn := Suc (drawn st)\<rparr>)"

text \<open>
  \<open>CreateMappingAsync\<close> assigns to \<open>mapping.Id\<close>, stores the object and returns it.
  A \<open>WiremockMapping\<close> is a reference: the caller's object is the one returned.
\<close>

definition CreateMappingAsync ::
  "(nat \<Rightarrow> string) \<Rightarrow> WiremockMapping \<Rightarrow> MappingService \<Rightarrow> WiremockMapping \<times> MappingService" where
  "CreateMappingAsync guid mapping st =
     (let (g, st1) = NewGuid guid st;
          mapping' = mapping\<lparr>wm_Id := Some g\<rparr>
      in (mapping', st1\<lparr>mappings := (mappings st1)(g \<mapsto> mapping')\<rparr>))"

text \<open>
  The loop of \<open>GenerateMappingsAsync\<close>. The object added to \<open>generatedMappings\<close> is the
  object \<open>CreateMappingAsync\<close> has just assigned to.
\<close>

fun GenerateMappings_loop ::
  "(nat \<Rightarrow> string) \<Rightarrow> WiremockMapping list \<Rightarrow> MappingService
    \<Rightarrow> WiremockMapping list \<times> MappingService" where
  "GenerateMappings_loop guid [] st = ([], st)"
| "GenerateMappings_loop guid (mapping # rest) st =
     (let (mapping1, st1) =
            (if IsNullOrWhiteSpace (wm_Id mapping)
             then (let (g, s) = NewGuid guid st in (mapping\<lparr>wm_Id := Some g\<rparr>, s))
             else (mapping, st));
          (mapping2, st2) = CreateMappingAsync guid mapping1 st1;
          (generated, st3) = GenerateMappings_loop guid rest st2
      in (mapping2 # generated, st3))"

definition GenerateMappingsAsync ::
  "(nat \<Rightarrow> string) \<Rightarrow> JsonConfig \<Rightarrow> MappingService
    \<Rightarrow> exn + (WiremockMapping list \<times> MappingService)" where
  "GenerateMappingsAsync guid config st =
     (case jc_Mappings config of None \<Rightarrow> Inl NullReferenceException
      | Some ms \<Rightarrow> Inr (GenerateMappings_loop guid ms st))"

fun GenerateMappingsFromATOM_loop ::
  "(nat \<Rightarrow> string) \<Rightarrow> ATOMConfig \<Rightarrow> MockConfig list \<Rightarrow> MappingService
    \<Rightarrow> WiremockMapping list \<times> MappingService" where
  "GenerateMappingsFromATOM_loop guid config [] st = ([], st)"
| "GenerateMappingsFromATOM_loop guid config (mock # rest) st =
     (let (g, st1) = NewGuid guid st;
          wiremockMapping = ConvertToWiremockMapping g mock config;
          (wiremockMapping', st2) = CreateMappingAsync guid wiremockMapping st1;
          (generated, st3) = GenerateMappingsFromATOM_loop guid config rest st2
      in (wiremockMapping' # generated, st3))"

definition GenerateMappingsFromATOMAsync ::
  "(nat \<Rightarrow> string) \<Rightarrow> ATOMConfig \<Rightarrow> MappingService
    \<Rightarrow> exn + (WiremockMapping list \<times> MappingService)" where
  "GenerateMappingsFromATOMAsync guid config st =
     (case ac_Mocks config of None \<Rightarrow> Inl NullReferenceException
      | Some ms \<Rightarrow> Inr (GenerateMappingsFromATOM_loop guid config ms st))"

section \<open>ConfigValidationService\<close>

text \<open>
  What the service takes from the runtime library:
  \<^item> \<open>IsAbsoluteUri s\<close>: whether \<open>Uri.TryCreate(s, UriKind.Absolute, out _)\<close> succeeds;
  \<^item> \<open>DeserializeATOM j\<close> and \<open>DeserializeLegacy j\<close>: what
    \<open>JsonSerializer.Deserialize\<close> does on the raw text of the element \<open>j\<close>: it throws,
    returns \<open>null\<close>, or returns the object;
  \<^item> \<open>WrongTypeMessage j\<close>: the message of the \<open>InvalidOperationException\<close> that
    \<open>TryGetProperty\<close> throws on an element that is not an object.

  The class \<open>ValidationResult\<close> is not among the sources: \<open>NewWarnings\<close> is the list a
  \<open>new ValidationResult\<close> has as \<open>Warnings\<close> when the initialiser does not assign it.
\<close>

record runtime =
  IsAbsoluteUri :: "string \<Rightarrow> bool"
  DeserializeATOM :: "json \<Rightarrow> exn + ATOMConfig option"
  DeserializeLegacy :: "json \<Rightarrow> exn + JsonConfig option"
  WrongTypeMessage :: "json \<Rightarrow> string"
  NewWarnings :: "ValidationError list"

definition error :: "string \<Rightarrow> string \<Rightarrow> ValidationError" where
  "error path message = \<lparr>Path = path, Message = message, Severity = ''error''\<rparr>"

definition warning :: "string \<Rightarrow> string \<Rightarrow> ValidationError" where
  "warning path message = \<lparr>Path = path, Message = message, Severity = ''warning''\<rparr>"

text \<open>\<open>string.Join(separator, values)\<close>.\<close>

fun Join :: "string \<Rightarrow> string list \<Rightarrow> string" where
  "Join sep [] = []"
| "Join sep [x] = x"
| "Join sep (x # y # ys) = x @ sep @ Join sep (y # ys)"

text \<open>The interpolation of a string reference: \<open>null\<close> shows as the empty string.\<close>

fun show_string :: "string option \<Rightarrow> string" where
  "show_string None = []"
| "show_string (Some s) = s"

subsection \<open>ValidateConfig\<close>

text \<open>One pass of the loop over \<open>config.Mappings\<close>: the errors and the warnings it adds.\<close>

definition ValidateConfig_mapping ::
  "nat \<Rightarrow> WiremockMapping \<Rightarrow> ValidationError list \<times> ValidationError list" where
  "ValidateConfig_mapping i mapping =
     (let pathPrefix = ''mappings['' @ string_of_nat i @ '']'';
          request = wm_Request mapping;
          response = wm_Response mapping;
          bodyCount = (if \<not> IsNullOrWhiteSpace (wp_Body response) then 1 else 0)
                    + (if wp_JsonBody response \<noteq> None then 1 else 0)
                    + (if \<not> IsNullOrWhiteSpace (wp_BodyFileName response) then 1 else (0::nat))
      in ((if IsNullOrWhiteSpace (wq_Method request)
           then [error (pathPrefix @ ''.request.method'') ''HTTP method is required''] else [])
          @ (if IsNullOrWhiteSpace (wq_Url request) \<and> IsNullOrWhiteSpace (wq_UrlPattern request)
             then [error (pathPrefix @ ''.request'') ''Either URL or URL pattern is required'']
             else [])
          @ (if wp_Status response < 100 \<or> wp_Status response > 599
             then [error (pathPrefix @ ''.response.status'')
                    (''HTTP status code must be between 100 and 599, got ''
                       @ string_of_int (wp_Status response))]
             else []),
          (if \<not> IsNullOrWhiteSpace (wq_Url request) \<and> \<not> IsNullOrWhiteSpace (wq_UrlPattern request)
           then [warning (pathPrefix @ ''.request'')
                  ''Both URL and URL pattern specified, URL pattern will take precedence'']
           else [])
          @ (if bodyCount > 1
             then [warning (pathPrefix @ ''.response'')
                    ''Multiple response body types specified, only one will be used'']
             else [])))"

definition ValidateConfig :: "JsonConfig \<Rightarrow> ValidationResult" where
  "ValidateConfig config =
     (let each = (case jc_Mappings config of None \<Rightarrow> None
                  | Some ms \<Rightarrow> if length ms = 0 then None
                      else Some (map (\<lambda>(i, m). ValidateConfig_mapping i m) (enumerate 0 ms)));
          errors =
            (if IsNullOrWhiteSpace (jc_Name config)
             then [error ''name'' ''Configuration name is required''] else [])
            @ (case each of
                 None \<Rightarrow> [error ''mappings'' ''At least one mapping is required'']
               | Some rs \<Rightarrow> concat (map fst rs));
          warnings =
            (if IsNullOrWhiteSpace (jc_Version config)
             then [warning ''version'' ''Configuration version is recommended''] else [])
            @ (case each of None \<Rightarrow> [] | Some rs \<Rightarrow> concat (map snd rs))
      in \<lparr>IsValid = (length errors = 0), Errors = errors, Warnings = warnings\<rparr>)"

subsection \<open>ValidateATOMConfig\<close>

definition validMethods :: "string list" where
  "validMethods = [''GET'', ''POST'', ''PUT'', ''DELETE'', ''PATCH'', ''HEAD'', ''OPTIONS'', ''ANY'']"

definition validAuthTypes :: "string list" where
  "validAuthTypes = [''none'', ''basic'', ''bearer'']"

text \<open>The two tests on the URL matching of a mock (lines 184 to 212).\<close>

definition hasUrlMatch :: "MockRequest \<Rightarrow> bool" where
  "hasUrlMatch r =
     (\<not> IsNullOrWhiteSpace (mq_Url r) \<or> \<not> IsNullOrWhiteSpace (mq_UrlPattern r)
      \<or> \<not> IsNullOrWhiteSpace (mq_UrlPath r) \<or> \<not> IsNullOrWhiteSpace (mq_UrlPathPattern r)
      \<or> \<not> IsNullOrWhiteSpace (mq_PathTemplate r))"

definition urlConflict :: "MockRequest \<Rightarrow> bool" where
  "urlConflict r =
     (\<not> IsNullOrWhiteSpace (mq_Url r)
      \<and> (\<not> IsNullOrWhiteSpace (mq_UrlPattern r) \<or> \<not> IsNullOrWhiteSpace (mq_UrlPath r)
         \<or> \<not> IsNullOrWhiteSpace (mq_UrlPathPattern r)))"

text \<open>One pass of the loop over \<open>config.Mocks\<close>: the errors and the warnings it adds.\<close>

definition ValidateATOMConfig_mock ::
  "runtime \<Rightarrow> nat \<Rightarrow> MockConfig \<Rightarrow> ValidationError list \<times> ValidationError list" where
  "ValidateATOMConfig_mock rt i mock =
     (let pathPrefix = ''mocks['' @ string_of_nat i @ '']'';
          request = mc_Request mock;
          response = mc_Response mock
      in ((case mq_Method request of
             None \<Rightarrow> [error (pathPrefix @ ''.request.method'') ''HTTP method is required'']
           | Some m \<Rightarrow>
               if IsNullOrWhiteSpace (Some m)
               then [error (pathPrefix @ ''.request.method'') ''HTTP method is required'']
               else if ToUpper m \<notin> set validMethods
               then [error (pathPrefix @ ''.request.method'')
                      (''Invalid HTTP method: '' @ m @ ''. Valid methods: ''
                         @ Join '', '' validMethods)]
               else [])
          @ (if mp_Status response < 100 \<or> mp_Status response \<ge> 600
             then [error (pathPrefix @ ''.response.status'')
                    (''Invalid HTTP status code: '' @ string_of_int (mp_Status response)
                       @ ''. Must be between 100-599'')]
             else [])
          @ (case mp_Body response of None \<Rightarrow> []
             | Some body \<Rightarrow>
                 (if rb_Type body = ''inline'' \<and> IsNullOrWhiteSpace (rb_Value body)
                  then [error (pathPrefix @ ''.response.body'')
                         ''Inline response body must have a value'']
                  else [])
                 @ (if rb_Type body = ''file'' \<and> IsNullOrWhiteSpace (rb_FileName body)
                    then [error (pathPrefix @ ''.response.body'')
                           ''File response body must have a fileName'']
                    else [])
                 @ (if rb_Type body \<noteq> ''inline'' \<and> rb_Type body \<noteq> ''file''
                    then [error (pathPrefix @ ''.response.body.type'')
                           (''Response body type must be 'inline' or 'file'' @ [CHR 0x27])]
                    else []))
          @ (case mp_FixedDelayMilliseconds response of None \<Rightarrow> []
             | Some d \<Rightarrow>
                 if d < 0
                 then [error (pathPrefix @ ''.response.fixedDelayMilliseconds'')
                        ''Fixed delay must be non-negative'']
                 else [])
          @ (case mp_ProxyBaseUrl response of None \<Rightarrow> []
             | Some u \<Rightarrow>
                 if \<not> IsNullOrWhiteSpace (Some u) \<and> \<not> IsAbsoluteUri rt u
                 then [error (pathPrefix @ ''.response.proxyBaseUrl'')
                        (''Invalid proxy base URL format: '' @ u)]
                 else []),
          (if \<not> hasUrlMatch request
           then [warning (pathPrefix @ ''.request'')
                  ''Request should have at least one URL matching property'']
           else [])
          @ (if urlConflict request
             then [warning (pathPrefix @ ''.request'')
                    ''Using both exact URL and URL patterns may cause conflicts'']
             else [])))"

text \<open>The validation of \<open>config.Target.Auth\<close> (lines 309 to 348).\<close>

definition ValidateATOMConfig_auth :: "AuthConfig \<Rightarrow> ValidationError list" where
  "ValidateATOMConfig_auth auth =
     (if ToLower (au_Type auth) \<notin> set validAuthTypes
      then [error ''target.auth.type''
             (''Invalid auth type: '' @ au_Type auth @ ''. Valid types: ''
                @ Join '', '' validAuthTypes)]
      else [])
     @ (if ToLower (au_Type auth) = ''basic''
           \<and> (IsNullOrWhiteSpace (au_Username auth) \<or> IsNullOrWhiteSpace (au_Password auth))
        then [error ''target.auth'' ''Basic authentication requires both username and password'']
        else [])
     @ (if ToLower (au_Type auth) = ''bearer'' \<and> IsNullOrWhiteSpace (au_Token auth)
        then [error ''target.auth'' ''Bearer authentication requires a token'']
        else [])"

definition ValidateATOMConfig_target :: "runtime \<Rightarrow> TargetConfig \<Rightarrow> ValidationError list" where
  "ValidateATOMConfig_target rt target =
     (case tg_BaseUrl target of
        None \<Rightarrow> [error ''target.baseUrl'' ''Target base URL is required when target is specified'']
      | Some u \<Rightarrow>
          if IsNullOrWhiteSpace (Some u)
          then [error ''target.baseUrl'' ''Target base URL is required when target is specified'']
          else if \<not> IsAbsoluteUri rt u
          then [error ''target.baseUrl'' (''Invalid base URL format: '' @ u)]
          else [])
     @ (case tg_Auth target of None \<Rightarrow> [] | Some auth \<Rightarrow> ValidateATOMConfig_auth auth)"

definition ValidateATOMConfig :: "runtime \<Rightarrow> ATOMConfig \<Rightarrow> ValidationResult" where
  "ValidateATOMConfig rt config =
     (let each = (case ac_Mocks config of None \<Rightarrow> None
                  | Some ms \<Rightarrow> if length ms = 0 then None
                      else Some (map (\<lambda>(i, m). ValidateATOMConfig_mock rt i m) (enumerate 0 ms)));
          errors =
            (if IsNullOrWhiteSpace (ac_Version config)
             then [error ''version'' ''Version is required''] else [])
            @ (case each of
                 None \<Rightarrow> [error ''mocks'' ''At least one mock is required'']
               | Some rs \<Rightarrow> concat (map fst rs))
            @ (case ac_Target config of None \<Rightarrow> []
               | Some target \<Rightarrow> ValidateATOMConfig_target rt target)
            @ (case ac_Defaults config of None \<Rightarrow> []
               | Some d \<Rightarrow>
                   (case df_Priority d of None \<Rightarrow> []
                    | Some p \<Rightarrow>
                        if p < 1
                        then [error ''defaults.priority'' ''Default priority must be 1 or greater'']
                        else []));
          warnings = (case each of None \<Rightarrow> [] | Some rs \<Rightarrow> concat (map snd rs))
      in \<lparr>IsValid = (length errors = 0), Errors = errors, Warnings = warnings\<rparr>)"

subsection \<open>ValidateConfigFromJson\<close>

text \<open>
  \<open>TryGetProperty\<close>: on an object, the value of the property if there is one (the last one
  of that name); on any other element it throws.
\<close>

definition TryGetProperty :: "runtime \<Rightarrow> json \<Rightarrow> string \<Rightarrow> exn + json option" where
  "TryGetProperty rt j name =
     (case j of JObject kvs \<Rightarrow> Inr (map_of (rev kvs) name)
      | _ \<Rightarrow> Inl (OtherException (WrongTypeMessage rt j)))"

text \<open>The result with one error at \<open>root\<close>, as the service builds it in five places.\<close>

definition root_error :: "runtime \<Rightarrow> string \<Rightarrow> ValidationResult" where
  "root_error rt message =
     \<lparr>IsValid = False, Errors = [error ''root'' message], Warnings = NewWarnings rt\<rparr>"

text \<open>The body of the \<open>try\<close> block: the result it returns, or the exception it throws.\<close>

definition ValidateConfigFromJson_try :: "runtime \<Rightarrow> json \<Rightarrow> exn + ValidationResult" where
  "ValidateConfigFromJson_try rt jsonElement =
     (case TryGetProperty rt jsonElement ''mocks'' of
        Inl ex \<Rightarrow> Inl ex
      | Inr mocksProperty \<Rightarrow>
          (let isAtomConfig = (case mocksProperty of Some (JArray _) \<Rightarrow> True | _ \<Rightarrow> False)
           in if isAtomConfig
              then (case DeserializeATOM rt jsonElement of
                      Inl ex \<Rightarrow> Inl ex
                    | Inr None \<Rightarrow> Inr (root_error rt ''Failed to deserialize ATOM config'')
                    | Inr (Some atomConfig) \<Rightarrow> Inr (ValidateATOMConfig rt atomConfig))
              else (case DeserializeLegacy rt jsonElement of
                      Inl ex \<Rightarrow> Inl ex
                    | Inr None \<Rightarrow> Inr (root_error rt ''Failed to deserialize legacy config'')
                    | Inr (Some legacyConfig) \<Rightarrow> Inr (ValidateConfig legacyConfig))))"

definition ValidateConfigFromJson :: "runtime \<Rightarrow> json \<Rightarrow> ValidationResult" where
  "ValidateConfigFromJson rt jsonElement =
     (case ValidateConfigFromJson_try rt jsonElement of
        Inr result \<Rightarrow> result
      | Inl (JsonException m) \<Rightarrow> root_error rt (''JSON parsing error: '' @ m)
      | Inl (OtherException m) \<Rightarrow> root_error rt (''Validation error: '' @ m))"

section \<open>WiremockAdminService and the deployment endpoint\<close>

text \<open>
  One call of \<open>CreateMappingAsync\<close> posts a mapping to the stub server and either returns
  the created mapping or throws. What the server answers is not the program's: the outcome
  of the call number \<open>n\<close> of a batch is a parameter \<open>create n url mapping auth\<close>.
\<close>

type_synonym create_call =
  "nat \<Rightarrow> string \<Rightarrow> WiremockMapping \<Rightarrow> AuthConfig option \<Rightarrow> exn + WiremockMapping"

definition mappingDescription :: "WiremockMapping \<Rightarrow> string" where
  "mappingDescription mapping =
     show_string (wq_Method (wm_Request mapping)) @ '' ''
       @ show_string (case wq_Url (wm_Request mapping) of
                        Some u \<Rightarrow> Some u | None \<Rightarrow> wq_UrlPattern (wm_Request mapping))"

text \<open>
  The loop of \<open>CreateMappingsAsync\<close> over the mappings still to send, with the two lists
  \<open>createdMappings\<close> and \<open>failures\<close> it appends to.
\<close>

fun CreateMappings_loop ::
  "create_call \<Rightarrow> string \<Rightarrow> AuthConfig option \<Rightarrow> nat \<Rightarrow> WiremockMapping list
    \<Rightarrow> WiremockMapping list \<times> string list \<Rightarrow> WiremockMapping list \<times> string list" where
  "CreateMappings_loop create url auth n [] (createdMappings, failures) =
     (createdMappings, failures)"
| "CreateMappings_loop create url auth n (mapping # rest) (createdMappings, failures) =
     (case create n url mapping auth of
        Inr createdMapping \<Rightarrow>
          CreateMappings_loop create url auth (Suc n) rest
            (createdMappings @ [createdMapping], failures)
      | Inl ex \<Rightarrow>
          CreateMappings_loop create url auth (Suc n) rest
            (createdMappings, failures @ [mappingDescription mapping @ '': '' @ exn_Message ex]))"

text \<open>\<open>CreateMappingsAsync\<close> logs the failures and returns \<open>createdMappings\<close>.\<close>

definition CreateMappingsAsync ::
  "create_call \<Rightarrow> string \<Rightarrow> WiremockMapping list \<Rightarrow> AuthConfig option \<Rightarrow> WiremockMapping list" where
  "CreateMappingsAsync create wiremockBaseUrl mappings_in auth =
     fst (CreateMappings_loop create wiremockBaseUrl auth 0 mappings_in ([], []))"

text \<open>
  The request and the answer of the endpoint. The answer is the anonymous object the endpoint
  builds, or the message of a \<open>BadRequest\<close> or of the status 500.
\<close>

record DeployMappingsRequest =
  TargetUrl :: "string option"
  Mappings :: "WiremockMapping list option"
  Auth :: "AuthConfig option"

record deployed_entry =
  de_id :: "string option"
  de_method :: "string option"
  de_url :: "string option"

record deployed_info =
  target :: string
  mappingsCount :: nat
  deployed_mappings :: "deployed_entry list"

record deploy_response =
  success :: bool
  message :: string
  deployed :: deployed_info

datatype action_result =
    BadRequest string
  | Ok deploy_response
  | StatusCode500 string

definition deployed_entry_of :: "WiremockMapping \<Rightarrow> deployed_entry" where
  "deployed_entry_of m =
     \<lparr>de_id = wm_Id m, de_method = wq_Method (wm_Request m),
      de_url = (case wq_Url (wm_Request m) of
                  Some u \<Rightarrow> Some u | None \<Rightarrow> wq_UrlPattern (wm_Request m))\<rparr>"

text \<open>
  \<open>ConfigController.DeployMappings\<close>. \<open>CreateMappingsAsync\<close> catches what a create call
  throws, so the \<open>catch\<close> of the endpoint (status 500) has nothing to catch from it.
\<close>

definition DeployMappings :: "create_call \<Rightarrow> DeployMappingsRequest \<Rightarrow> action_result" where
  "DeployMappings create request =
     (case TargetUrl request of
        None \<Rightarrow> BadRequest ''Target URL is required''
      | Some targetUrl \<Rightarrow>
          if IsNullOrWhiteSpace (Some targetUrl) then BadRequest ''Target URL is required''
          else (case Mappings request of
                  None \<Rightarrow> BadRequest ''At least one mapping is required''
                | Some ms \<Rightarrow>
                    if ms = [] then BadRequest ''At least one mapping is required''
                    else (let deployedMappings = CreateMappingsAsync create targetUrl ms (Auth request)
                          in Ok \<lparr>success = True,
                                 message = ''Successfully deployed ''
                                   @ string_of_nat (length deployedMappings)
                                   @ '' mappings to '' @ targetUrl,
                                 deployed =
                                   \<lparr>target = targetUrl,
                                    mappingsCount = length deployedMappings,
                                    deployed_mappings =
                                      map deployed_entry_of deployedMappings\<rparr>\<rparr>)))"

section \<open>The validation service of the client\<close>

text \<open>
  The client works on the values \<open>JSON.parse\<close> gives, here \<^typ>\<open>json\<close>, and returns the
  same shape of result as the server, here \<^typ>\<open>ValidationResult\<close>. What it takes from the
  JavaScript engine:
  \<^item> \<open>ToString v\<close>: the string a template literal makes of \<open>v\<close> (an object that hides
    the inherited \<open>toString\<close> behind a property of its own is outside the model);
  \<^item> \<open>StringToNumber s\<close>: the number a comparison makes of the string \<open>s\<close>;
  \<^item> \<open>URL_parses s\<close>: whether \<open>new URL(s)\<close> returns;
  \<^item> \<open>ObjectPrototype\<close>, \<open>ArrayPrototype\<close>: the names every object, and every array,
    inherits;
  \<^item> \<open>ReadOfNullish v k\<close> and \<open>NotAFunction\<close>: the messages of the \<open>TypeError\<close> for
    reading the property \<open>k\<close> of \<open>undefined\<close> or \<open>null\<close>, and for calling what is no
    function.
\<close>

datatype jsnum = NaN | NegInfinity | Finite rat | PosInfinity

record js_runtime =
  ToString :: "json \<Rightarrow> string"
  StringToNumber :: "string \<Rightarrow> jsnum"
  URL_parses :: "string \<Rightarrow> bool"
  ObjectPrototype :: "string list"
  ArrayPrototype :: "string list"
  ReadOfNullish :: "json \<Rightarrow> string \<Rightarrow> string"
  NotAFunction :: string

fun typeof :: "json \<Rightarrow> string" where
  "typeof JUndefined = ''undefined''"
| "typeof JNull = ''object''"
| "typeof (JBool b) = ''boolean''"
| "typeof (JNumber n) = ''number''"
| "typeof (JString s) = ''string''"
| "typeof (JArray xs) = ''object''"
| "typeof (JObject kvs) = ''object''"

fun truthy :: "json \<Rightarrow> bool" where
  "truthy JUndefined = False"
| "truthy JNull = False"
| "truthy (JBool b) = b"
| "truthy (JNumber n) = (n \<noteq> 0)"
| "truthy (JString s) = (s \<noteq> [])"
| "truthy (JArray xs) = True"
| "truthy (JObject kvs) = True"

fun isArray :: "json \<Rightarrow> bool" where
  "isArray (JArray xs) = True"
| "isArray _ = False"

fun isInteger :: "json \<Rightarrow> bool" where
  "isInteger (JNumber n) = (n = of_int \<lfloor>n\<rfloor>)"
| "isInteger _ = False"

fun ToNumber :: "js_runtime \<Rightarrow> json \<Rightarrow> jsnum" where
  "ToNumber rt JUndefined = NaN"
| "ToNumber rt JNull = Finite 0"
| "ToNumber rt (JBool b) = Finite (if b then 1 else 0)"
| "ToNumber rt (JNumber n) = Finite n"
| "ToNumber rt (JString s) = StringToNumber rt s"
| "ToNumber rt v = StringToNumber rt (ToString rt v)"

fun js_lt :: "jsnum \<Rightarrow> rat \<Rightarrow> bool" where
  "js_lt NaN r = False"
| "js_lt NegInfinity r = True"
| "js_lt (Finite q) r = (q < r)"
| "js_lt PosInfinity r = False"

fun js_ge :: "jsnum \<Rightarrow> rat \<Rightarrow> bool" where
  "js_ge NaN r = False"
| "js_ge NegInfinity r = False"
| "js_ge (Finite q) r = (q \<ge> r)"
| "js_ge PosInfinity r = True"

text \<open>
  \<open>Object.entries\<close>: the own properties of an object, the indices and elements of an
  array.
\<close>

fun entries :: "json \<Rightarrow> (string \<times> json) list" where
  "entries (JObject kvs) = kvs"
| "entries (JArray xs) = zip (map string_of_nat [0..<length xs]) xs"
| "entries _ = []"

text \<open>The operator \<open>in\<close> on a value whose \<open>typeof\<close> is \<open>object\<close> and that is not \<open>null\<close>.\<close>

definition js_in :: "js_runtime \<Rightarrow> string \<Rightarrow> json \<Rightarrow> bool" where
  "js_in rt k data =
     (case data of
        JObject kvs \<Rightarrow> k \<in> fst ` set kvs \<or> k \<in> set (ObjectPrototype rt)
      | JArray xs \<Rightarrow>
          k \<in> set (map string_of_nat [0..<length xs]) \<or> k = ''length''
          \<or> k \<in> set (ArrayPrototype rt) \<or> k \<in> set (ObjectPrototype rt)
      | _ \<Rightarrow> False)"

text \<open>
  \<open>includes\<close> compares with \<open>SameValueZero\<close>: a primitive is found by its value, an object
  or an array never, since the elements of an \<open>enum\<close> are other objects than the data.
\<close>

fun isPrimitive :: "json \<Rightarrow> bool" where
  "isPrimitive (JArray xs) = False"
| "isPrimitive (JObject kvs) = False"
| "isPrimitive _ = True"

definition js_includes :: "json list \<Rightarrow> json \<Rightarrow> bool" where
  "js_includes xs v = (isPrimitive v \<and> v \<in> set xs)"

text \<open>\<open>Array.prototype.join\<close>: \<open>undefined\<close> and \<open>null\<close> show as the empty string.\<close>

definition js_join :: "js_runtime \<Rightarrow> string \<Rightarrow> json list \<Rightarrow> string" where
  "js_join rt sep xs =
     Join sep (map (\<lambda>x. if x = JUndefined \<or> x = JNull then [] else ToString rt x) xs)"

subsection \<open>SimpleValidator\<close>

text \<open>
  A schema, with the annotations \<open>validate\<close> reads: \<open>type\<close>, \<open>required\<close>, \<open>enum\<close>,
  \<open>minimum\<close>, \<open>format\<close>, \<open>properties\<close>, \<open>items\<close>, \<open>additionalProperties\<close> and \<open>oneOf\<close>,
  each absent (\<open>None\<close>) or present.
\<close>

datatype schema =
  Schema
    (s_type: "string option")
    (s_required: "string list option")
    (s_enum: "json list option")
    (s_minimum: "rat option")
    (s_format: "string option")
    (s_properties: "(string \<times> schema) list option")
    (s_items: "schema option")
    (s_additionalProperties: "schema option")
    (s_oneOf: "schema list option")

text \<open>The type test at the head of \<open>validate\<close>: the type expected, when the data fails it.\<close>

definition type_mismatch :: "string option \<Rightarrow> json \<Rightarrow> string option" where
  "type_mismatch ty data =
     (case ty of None \<Rightarrow> None
      | Some t \<Rightarrow>
          if t = [] then None
          else if t = ''object'' \<and> typeof data \<noteq> ''object'' then Some ''object''
          else if t = ''array'' \<and> \<not> isArray data then Some ''array''
          else if t = ''string'' \<and> typeof data \<noteq> ''string'' then Some ''string''
          else if t = ''integer'' \<and> \<not> isInteger data then Some ''integer''
          else if t = ''boolean'' \<and> typeof data \<noteq> ''boolean'' then Some ''boolean''
          else None)"

definition required_errors ::
  "js_runtime \<Rightarrow> string option \<Rightarrow> string list option \<Rightarrow> json \<Rightarrow> string \<Rightarrow> ValidationError list" where
  "required_errors rt ty req data path =
     (case req of None \<Rightarrow> []
      | Some reqArray \<Rightarrow>
          if ty = Some ''object''
          then concat (map (\<lambda>reqProp.
                 if data = JNull \<or> data = JUndefined \<or> \<not> js_in rt reqProp data
                 then [error (path @ ''.'' @ reqProp)
                        (''Required property '' @ [CHR 0x27] @ reqProp @ [CHR 0x27]
                           @ '' is missing'')]
                 else []) reqArray)
          else [])"

definition enum_errors ::
  "js_runtime \<Rightarrow> json list option \<Rightarrow> json \<Rightarrow> string \<Rightarrow> ValidationError list" where
  "enum_errors rt en data path =
     (case en of None \<Rightarrow> []
      | Some vs \<Rightarrow>
          if \<not> js_includes vs data
          then [error path
                 (''Value '' @ [CHR 0x27] @ ToString rt data @ [CHR 0x27]
                    @ '' is not allowed. Expected one of: '' @ js_join rt '', '' vs)]
          else [])"

definition minimum_errors ::
  "js_runtime \<Rightarrow> rat option \<Rightarrow> json \<Rightarrow> string \<Rightarrow> ValidationError list" where
  "minimum_errors rt mn data path =
     (case mn of None \<Rightarrow> []
      | Some m \<Rightarrow>
          (case data of
             JNumber n \<Rightarrow>
               if n < m
               then [error path
                      (''Value '' @ ToString rt data @ '' is less than minimum ''
                         @ ToString rt (JNumber m))]
               else []
           | _ \<Rightarrow> []))"

definition format_errors ::
  "js_runtime \<Rightarrow> string option \<Rightarrow> json \<Rightarrow> string \<Rightarrow> ValidationError list" where
  "format_errors rt fmt data path =
     (if fmt = Some ''uri''
      then (case data of
              JString s \<Rightarrow>
                if URL_parses rt s then [] else [error path (''Invalid URI format: '' @ s)]
            | _ \<Rightarrow> [])
      else [])"

definition sub_path :: "string \<Rightarrow> string \<Rightarrow> string" where
  "sub_path path key = (if path \<noteq> [] then path @ ''.'' @ key else key)"

definition oneOf_errors :: "nat \<Rightarrow> string \<Rightarrow> ValidationError list" where
  "oneOf_errors matching path =
     (if matching = 0
      then [error path ''Data does not match any of the required schemas'']
      else if matching > 1
      then [error path ''Data matches multiple schemas when only one is allowed'']
      else [])"

text \<open>
  \<open>props[key]\<close> is the schema of an own property, or what the object of properties inherits
  under that name, which carries none of the annotations and so validates every value.
\<close>

function validate :: "js_runtime \<Rightarrow> json \<Rightarrow> schema \<Rightarrow> string \<Rightarrow> ValidationError list" where
  "validate rt data (Schema ty req en mn fmt props items addl oneof) path =
     (case type_mismatch ty data of
        Some expected \<Rightarrow> [error path (''Expected '' @ expected @ '', got '' @ typeof data)]
      | None \<Rightarrow>
          required_errors rt ty req data path
          @ enum_errors rt en data path
          @ minimum_errors rt mn data path
          @ format_errors rt fmt data path
          @ (case props of None \<Rightarrow> []
             | Some ps \<Rightarrow>
                 if typeof data = ''object'' \<and> data \<noteq> JNull
                 then concat (map (\<lambda>(key, value).
                        case map_of ps key of None \<Rightarrow> []
                        | Some sub \<Rightarrow> validate rt value sub (sub_path path key))
                        (entries data))
                 else [])
          @ (case items of None \<Rightarrow> []
             | Some itemSchema \<Rightarrow>
                 (case data of
                    JArray xs \<Rightarrow>
                      concat (map (\<lambda>(index, item).
                        validate rt item itemSchema
                          (path @ ''['' @ string_of_nat index @ '']''))
                        (enumerate 0 xs))
                  | _ \<Rightarrow> []))
          @ (case addl of None \<Rightarrow> []
             | Some addlSchema \<Rightarrow>
                 if typeof data = ''object'' \<and> data \<noteq> JNull
                 then concat (map (\<lambda>(key, value).
                        if key \<notin> fst ` set (case props of None \<Rightarrow> [] | Some ps \<Rightarrow> ps)
                           \<and> key \<notin> set (ObjectPrototype rt)
                        then validate rt value addlSchema (sub_path path key) else [])
                        (entries data))
                 else [])
          @ (case oneof of None \<Rightarrow> []
             | Some subSchemas \<Rightarrow>
                 oneOf_errors
                   (length (filter (\<lambda>subSchema. length (validate rt data subSchema path) = 0)
                      subSchemas))
                   path))"
  by pat_completeness auto
termination
proof (relation "measure (\<lambda>(rt, data, s, path). size s)", goal_cases)
  case 1
  show ?case by simp
next
  case (2 rt data ty req en mn fmt props items addl oneof path ps x key "value" sub)
  from \<open>map_of ps key = Some sub\<close> have "(key, sub) \<in> set ps"
    by (rule map_of_SomeD)
  then have "size sub < Suc (size_list (size_prod (\<lambda>_. 0) size) ps)"
    by (induction ps) auto
  with 2 show ?case by simp
next
  case 3
  then show ?case by simp
next
  case 4
  then show ?case by simp
next
  case (5 rt data ty req en mn fmt props items addl oneof path subSchemas subSchema)
  from \<open>subSchema \<in> set subSchemas\<close>
  have "size subSchema < Suc (size_list size subSchemas)"
    by (induction subSchemas) auto
  with 5 show ?case by simp
qed

subsection \<open>The schema of the client\<close>

text \<open>
  \<open>ATOM_SCHEMA\<close>, written with the annotations \<open>validate\<close> reads; \<open>const\<close>, \<open>$ref\<close>,
  \<open>$defs\<close>, \<open>title\<close> and \<open>$schema\<close> are none of them, so a schema that has only those is the
  schema without annotation.
\<close>

definition no_annotation :: schema where
  "no_annotation = Schema None None None None None None None None None"

definition of_type :: "string \<Rightarrow> schema" where
  "of_type t = Schema (Some t) None None None None None None None None"

definition of_enum :: "string list \<Rightarrow> schema" where
  "of_enum vs = Schema None None (Some (map JString vs)) None None None None None None"

definition integer_from :: "rat \<Rightarrow> schema" where
  "integer_from m = Schema (Some ''integer'') None None (Some m) None None None None None"

definition uri_string :: schema where
  "uri_string = Schema (Some ''string'') None None None (Some ''uri'') None None None None"

definition object_of :: "string list option \<Rightarrow> (string \<times> schema) list \<Rightarrow> schema" where
  "object_of req props = Schema (Some ''object'') req None None None (Some props) None None None"

definition map_of_type :: "schema \<Rightarrow> schema" where
  "map_of_type s = Schema (Some ''object'') None None None None None None (Some s) None"

definition array_of :: "schema \<Rightarrow> schema" where
  "array_of s = Schema (Some ''array'') None None None None None (Some s) None None"

definition matcher_schema :: schema where
  "matcher_schema =
     object_of None
       [(''equalTo'', of_type ''string''), (''contains'', of_type ''string''),
        (''matches'', of_type ''string'')]"

text \<open>The two alternatives of the \<open>oneOf\<close> of a response body.\<close>

definition inline_branch :: schema where
  "inline_branch =
     Schema None (Some [''type'', ''value'']) None None None
       (Some [(''type'', no_annotation), (''value'', of_type ''string'')])
       None None None"

definition file_branch :: schema where
  "file_branch =
     Schema None (Some [''type'', ''fileName'']) None None None
       (Some [(''type'', no_annotation), (''fileName'', of_type ''string'')])
       None None None"

definition body_schema :: schema where
  "body_schema =
     Schema (Some ''object'') None None None None
       (Some [(''type'', of_enum [''inline'', ''file'']), (''value'', of_type ''string''),
              (''fileName'', of_type ''string''), (''templating'', of_type ''boolean'')])
       None None
       (Some [inline_branch, file_branch])"

definition request_schema :: schema where
  "request_schema =
     object_of (Some [''method''])
       [(''method'',
           of_enum [''GET'', ''POST'', ''PUT'', ''DELETE'', ''PATCH'', ''HEAD'', ''OPTIONS'',
                    ''ANY'']),
        (''url'', of_type ''string''),
        (''urlPattern'', of_type ''string''),
        (''urlPath'', of_type ''string''),
        (''urlPathPattern'', of_type ''string''),
        (''pathTemplate'', of_type ''string''),
        (''queryParameters'', map_of_type matcher_schema),
        (''headers'', no_annotation),
        (''cookies'', no_annotation),
        (''bodyPatterns'',
           array_of (object_of None
             [(''equalToJson'',
                 object_of None
                   [(''json'', of_type ''string''),
                    (''ignoreExtraElements'', of_type ''boolean''),
                    (''ignoreArrayOrder'', of_type ''boolean'')]),
              (''matchesJsonPath'', of_type ''string'')]))]"

definition response_schema :: schema where
  "response_schema =
     object_of (Some [''status''])
       [(''status'', of_type ''integer''),
        (''headers'', map_of_type (of_type ''string'')),
        (''fixedDelayMilliseconds'', integer_from 0),
        (''proxyBaseUrl'', uri_string),
        (''body'', body_schema)]"

definition ATOM_SCHEMA :: schema where
  "ATOM_SCHEMA =
     object_of (Some [''version'', ''mocks''])
       [(''version'', of_type ''string''),
        (''target'',
           object_of (Some [''baseUrl''])
             [(''baseUrl'', uri_string),
              (''auth'',
                 object_of None
                   [(''type'', of_enum [''none'', ''basic'', ''bearer'']),
                    (''username'', of_type ''string''),
                    (''password'', of_type ''string''),
                    (''token'', of_type ''string'')])]),
        (''defaults'',
           object_of None
             [(''priority'', integer_from 1),
              (''headers'', map_of_type (of_type ''string'')),
              (''templating'', object_of None [(''enabled'', of_type ''boolean'')])]),
        (''mocks'',
           array_of (object_of (Some [''request'', ''response''])
             [(''name'', of_type ''string''),
              (''priority'', integer_from 1),
              (''request'', request_schema),
              (''response'', response_schema),
              (''scenario'',
                 object_of None
                   [(''name'', of_type ''string''),
                    (''requiredState'', of_type ''string''),
                    (''newState'', of_type ''string'')]),
              (''metadata'', of_type ''object'')]))]"

subsection \<open>ValidationService\<close>

text \<open>
  Reading the property \<open>k\<close> of a value, for a name \<open>k\<close> that no prototype defines, as is
  every name the service reads: the own property of an object, \<open>undefined\<close> where there is
  none, and a \<open>TypeError\<close> on \<open>undefined\<close> and \<open>null\<close>.
\<close>

definition js_get :: "js_runtime \<Rightarrow> json \<Rightarrow> string \<Rightarrow> exn + json" where
  "js_get rt v k =
     (case v of
        JUndefined \<Rightarrow> Inl (OtherException (ReadOfNullish rt v k))
      | JNull \<Rightarrow> Inl (OtherException (ReadOfNullish rt v k))
      | JObject kvs \<Rightarrow> Inr (case map_of kvs k of None \<Rightarrow> JUndefined | Some x \<Rightarrow> x)
      | _ \<Rightarrow> Inr JUndefined)"

definition bindE :: "exn + 'a \<Rightarrow> ('a \<Rightarrow> exn + 'b) \<Rightarrow> exn + 'b" where
  "bindE r f = (case r of Inl ex \<Rightarrow> Inl ex | Inr x \<Rightarrow> f x)"

text \<open>\<open>config.target?.auth\<close>.\<close>

definition target_auth :: "js_runtime \<Rightarrow> json \<Rightarrow> exn + json" where
  "target_auth rt config =
     bindE (js_get rt config ''target'') (\<lambda>target.
       if target = JUndefined \<or> target = JNull then Inr JUndefined
       else js_get rt target ''auth'')"

text \<open>The errors of the authentication (lines 575 to 592), which stand in the callback.\<close>

definition auth_errors :: "js_runtime \<Rightarrow> json \<Rightarrow> exn + ValidationError list" where
  "auth_errors rt config =
     bindE (target_auth rt config) (\<lambda>auth.
       if truthy auth
       then bindE (js_get rt auth ''type'') (\<lambda>type.
            bindE (js_get rt auth ''username'') (\<lambda>username.
            bindE (js_get rt auth ''password'') (\<lambda>password.
            bindE (js_get rt auth ''token'') (\<lambda>token.
              Inr ((if type = JString ''basic'' \<and> (\<not> truthy username \<or> \<not> truthy password)
                    then [error ''target.auth''
                           ''Basic authentication requires both username and password'']
                    else [])
                   @ (if type = JString ''bearer'' \<and> \<not> truthy token
                      then [error ''target.auth'' ''Bearer authentication requires a token'']
                      else []))))))
       else Inr [])"

text \<open>The callback of \<open>config.mocks?.forEach\<close>: what it pushes, or what it throws.\<close>

definition validateBusinessLogic_mock ::
  "js_runtime \<Rightarrow> json \<Rightarrow> json \<Rightarrow> nat \<Rightarrow> exn + ValidationError list" where
  "validateBusinessLogic_mock rt config mock index =
     (let prefix = ''mocks['' @ string_of_nat index @ '']''
      in bindE (js_get rt mock ''request'') (\<lambda>request.
         bindE (js_get rt request ''url'') (\<lambda>url.
         bindE (js_get rt request ''urlPattern'') (\<lambda>urlPattern.
         bindE (js_get rt request ''urlPath'') (\<lambda>urlPath.
         bindE (js_get rt request ''urlPathPattern'') (\<lambda>urlPathPattern.
         bindE (js_get rt request ''pathTemplate'') (\<lambda>pathTemplate.
         bindE (js_get rt mock ''response'') (\<lambda>response.
         bindE (js_get rt response ''status'') (\<lambda>status.
         bindE (js_get rt response ''body'') (\<lambda>body.
         bindE (if truthy body
                then bindE (js_get rt body ''type'') (\<lambda>type.
                     bindE (js_get rt body ''value'') (\<lambda>val.
                     bindE (js_get rt body ''fileName'') (\<lambda>fileName.
                       Inr ((if type = JString ''inline'' \<and> \<not> truthy val
                             then [error (prefix @ ''.response.body'')
                                    ''Inline response body must have a value'']
                             else [])
                            @ (if type = JString ''file'' \<and> \<not> truthy fileName
                               then [error (prefix @ ''.response.body'')
                                      ''File response body must have a fileName'']
                               else [])))))
                else Inr []) (\<lambda>bodyErrors.
         bindE (auth_errors rt config) (\<lambda>authErrors.
           Inr ((if \<not> (truthy url \<or> truthy urlPattern \<or> truthy urlPath
                        \<or> truthy urlPathPattern \<or> truthy pathTemplate)
                 then [warning (prefix @ ''.request'')
                        (''Request must have at least one URL matching property ''
                           @ ''(url, urlPattern, urlPath, urlPathPattern, or pathTemplate)'')]
                 else [])
                @ (if js_lt (ToNumber rt status) 100 \<or> js_ge (ToNumber rt status) 600
                   then [error (prefix @ ''.response.status'')
                          (''Invalid HTTP status code: '' @ ToString rt status
                             @ ''. Must be between 100-599'')]
                   else [])
                @ bodyErrors
                @ authErrors
                @ (if truthy url \<and> (truthy urlPattern \<or> truthy urlPath \<or> truthy urlPathPattern)
                   then [warning (prefix @ ''.request'')
                          ''Using both exact URL and URL patterns may cause conflicts'']
                   else []))))))))))))))"

text \<open>\<open>forEach\<close> over the mocks: the first exception ends it.\<close>

fun forEach_mocks ::
  "js_runtime \<Rightarrow> json \<Rightarrow> nat \<Rightarrow> json list \<Rightarrow> exn + ValidationError list" where
  "forEach_mocks rt config index [] = Inr []"
| "forEach_mocks rt config index (mock # rest) =
     bindE (validateBusinessLogic_mock rt config mock index) (\<lambda>errors.
     bindE (forEach_mocks rt config (Suc index) rest) (\<lambda>more. Inr (errors @ more)))"

definition validateBusinessLogic :: "js_runtime \<Rightarrow> json \<Rightarrow> exn + ValidationError list" where
  "validateBusinessLogic rt config =
     bindE (js_get rt config ''mocks'') (\<lambda>mocks.
       case mocks of
         JUndefined \<Rightarrow> Inr []
       | JNull \<Rightarrow> Inr []
       | JArray ms \<Rightarrow> forEach_mocks rt config 0 ms
       | _ \<Rightarrow> Inl (OtherException (NotAFunction rt)))"

definition validateATOMConfig :: "js_runtime \<Rightarrow> json \<Rightarrow> ValidationResult" where
  "validateATOMConfig rt config =
     (if \<not> truthy config \<or> typeof config \<noteq> ''object''
      then \<lparr>IsValid = False, Errors = [error ''root'' ''Invalid JSON structure''], Warnings = []\<rparr>
      else (let errors = validate rt config ATOM_SCHEMA [] in
            case validateBusinessLogic rt config of
              Inl ex \<Rightarrow>
                \<lparr>IsValid = False,
                 Errors = [error ''root'' (''Validation error: '' @ exn_Message ex)],
                 Warnings = []\<rparr>
            | Inr businessErrors \<Rightarrow>
                (let allErrors = errors @ businessErrors;
                     errorList = filter (\<lambda>e. Severity e = ''error'') allErrors;
                     warningList = filter (\<lambda>e. Severity e = ''warning'') allErrors
                 in \<lparr>IsValid = (length errorList = 0), Errors = errorList,
                     Warnings = warningList\<rparr>)))"

section \<open>Example inputs\<close>

text \<open>The concrete inputs at which the theorems below are instantiated.\<close>

definition example_guid :: "nat \<Rightarrow> string" where
  "example_guid n = ''guid-'' @ string_of_nat n"

definition empty_service :: MappingService where
  "empty_service = \<lparr>drawn = 0, mappings = Map.empty\<rparr>"

definition example_response :: MockResponse where
  "example_response =
     \<lparr>mp_Status = 200, mp_Headers = None,
      mp_Body = Some \<lparr>rb_Type = ''inline'', rb_Value = Some ''{}'', rb_FileName = None\<rparr>,
      mp_FixedDelayMilliseconds = None, mp_ProxyBaseUrl = None\<rparr>"

text \<open>Scenario A: \<open>urlPath\<close> and \<open>pathTemplate\<close> are both \<open>/users/{id}\<close>.\<close>

definition scenario_A_mock :: MockConfig where
  "scenario_A_mock =
     \<lparr>mc_Priority = None,
      mc_Request =
        \<lparr>mq_Method = Some ''GET'', mq_Url = None, mq_UrlPattern = None,
         mq_UrlPath = Some ''/users/{id}'', mq_UrlPathPattern = None,
         mq_PathTemplate = Some ''/users/{id}'', mq_Headers = None, mq_BodyPatterns = None\<rparr>,
      mc_Response = example_response, mc_Scenario = None\<rparr>"

definition scenario_A_config :: ATOMConfig where
  "scenario_A_config =
     \<lparr>ac_Version = Some ''1.0'', ac_Target = None, ac_Defaults = None,
      ac_Mocks = Some [scenario_A_mock]\<rparr>"

text \<open>
  Scenario D: the defaults give the priority 5; the first mock has no priority, the second
  has the priority 2.
\<close>

definition scenario_D_config :: ATOMConfig where
  "scenario_D_config =
     \<lparr>ac_Version = Some ''1.0'', ac_Target = None,
      ac_Defaults = Some \<lparr>df_Priority = Some 5, df_Headers = None\<rparr>,
      ac_Mocks = Some [scenario_A_mock, scenario_A_mock\<lparr>mc_Priority := Some 2\<rparr>]\<rparr>"

text \<open>A mock whose \<open>url\<close> is blank and whose \<open>urlPattern\<close> is not.\<close>

definition blank_url_mock :: MockConfig where
  "blank_url_mock =
     \<lparr>mc_Priority = None,
      mc_Request =
        \<lparr>mq_Method = Some ''GET'', mq_Url = Some ''  '', mq_UrlPattern = Some ''/a.*'',
         mq_UrlPath = None, mq_UrlPathPattern = None, mq_PathTemplate = None,
         mq_Headers = None, mq_BodyPatterns = None\<rparr>,
      mc_Response = example_response, mc_Scenario = None\<rparr>"

definition example_runtime :: runtime where
  "example_runtime =
     \<lparr>IsAbsoluteUri = (\<lambda>s. take 7 s = ''http://''),
      DeserializeATOM = (\<lambda>j. Inl (JsonException ''The JSON value could not be converted'')),
      DeserializeLegacy = (\<lambda>j. Inr None),
      WrongTypeMessage = (\<lambda>j. ''The requested operation requires an element of type Object''),
      NewWarnings = []\<rparr>"

text \<open>A mapping of the legacy dialect that carries the id \<open>stub-1\<close>.\<close>

definition legacy_mapping :: WiremockMapping where
  "legacy_mapping =
     \<lparr>wm_Id = Some ''stub-1'', wm_Priority = Some 1, wm_ScenarioName = None,
      wm_RequiredScenarioState = None, wm_NewScenarioState = None,
      wm_Request =
        \<lparr>wq_Method = Some ''GET'', wq_Url = Some ''/api/users'', wq_UrlPattern = None,
         wq_Headers = None, wq_BodyPatterns = None\<rparr>,
      wm_Response =
        \<lparr>wp_Status = 200, wp_Headers = None, wp_Body = Some ''[]'', wp_JsonBody = None,
         wp_BodyFileName = None\<rparr>\<rparr>"

definition legacy_config :: JsonConfig where
  "legacy_config =
     \<lparr>jc_Name = Some ''Sample'', jc_Version = None, jc_BaseUrl = None,
      jc_Mappings = Some [legacy_mapping]\<rparr>"

section \<open>Blank URL fields made absent\<close>

text \<open>
  For the statement that a blank URL field counts as an absent one: the request with the
  blank ones among the chosen URL fields set to \<open>null\<close>. The five flags choose the fields.
\<close>

definition absent_if :: "bool \<Rightarrow> string option \<Rightarrow> string option" where
  "absent_if b s = (if b \<and> IsNullOrWhiteSpace s then None else s)"

definition without_blank_urls ::
  "bool \<Rightarrow> bool \<Rightarrow> bool \<Rightarrow> bool \<Rightarrow> bool \<Rightarrow> MockRequest \<Rightarrow> MockRequest" where
  "without_blank_urls b1 b2 b3 b4 b5 r =
     r\<lparr>mq_Url := absent_if b1 (mq_Url r),
       mq_UrlPattern := absent_if b2 (mq_UrlPattern r),
       mq_UrlPath := absent_if b3 (mq_UrlPath r),
       mq_UrlPathPattern := absent_if b4 (mq_UrlPathPattern r),
       mq_PathTemplate := absent_if b5 (mq_PathTemplate r)\<rparr>"

text \<open>The priority the transformer is to give: the mock's, else the default, else none.\<close>

definition priority_of :: "ATOMConfig \<Rightarrow> MockConfig \<Rightarrow> int option" where
  "priority_of config mock =
     (case mc_Priority mock of
        Some p \<Rightarrow> Some p
      | None \<Rightarrow> (case ac_Defaults config of None \<Rightarrow> None | Some d \<Rightarrow> df_Priority d))"

text \<open>An engine for the client, and a document whose \<open>target.auth\<close> lacks the password.\<close>

definition example_engine :: js_runtime where
  "example_engine =
     \<lparr>ToString = (\<lambda>v. case v of JString s \<Rightarrow> s | _ \<Rightarrow> ''[object Object]''),
      StringToNumber = (\<lambda>s. NaN),
      URL_parses = (\<lambda>s. take 7 s = ''http://''),
      ObjectPrototype = [''constructor'', ''toString'', ''valueOf'', ''hasOwnProperty''],
      ArrayPrototype = [''forEach'', ''map'', ''filter'', ''join''],
      ReadOfNullish = (\<lambda>v k. ''Cannot read properties of undefined (reading '' @ k @ '')''),
      NotAFunction = ''config.mocks?.forEach is not a function''\<rparr>"

definition json_mock :: json where
  "json_mock =
     JObject [(''request'', JObject [(''method'', JString ''GET''), (''url'', JString ''/a'')]),
              (''response'', JObject [(''status'', JNumber 200)])]"

definition json_config :: "json list \<Rightarrow> json" where
  "json_config mocks =
     JObject [(''version'', JString ''1.0''),
              (''target'',
                 JObject [(''baseUrl'', JString ''http://localhost:8080''),
                          (''auth'', JObject [(''type'', JString ''basic''),
                                              (''username'', JString ''admin'')])]),
              (''mocks'', JArray mocks)]"

text \<open>
  A batch of three mappings, and a stub server that fails the second create call of a batch
  with a given message.
\<close>

definition batch_mapping :: "string \<Rightarrow> WiremockMapping" where
  "batch_mapping url = legacy_mapping\<lparr>wm_Id := None, wm_Request :=
     \<lparr>wq_Method = Some ''GET'', wq_Url = Some url, wq_UrlPattern = None, wq_Headers = None,
      wq_BodyPatterns = None\<rparr>\<rparr>"

definition batch :: "WiremockMapping list" where
  "batch = [batch_mapping ''/a'', batch_mapping ''/b'', batch_mapping ''/c'']"

definition batch_request :: DeployMappingsRequest where
  "batch_request =
     \<lparr>TargetUrl = Some ''http://localhost:8080'', Mappings = Some batch, Auth = None\<rparr>"

definition second_call_fails :: "string \<Rightarrow> create_call" where
  "second_call_fails msg n url mapping auth =
     (if n = 1 then Inl (OtherException msg) else Inr mapping)"

section \<open>What a batch creates and what fails\<close>

text \<open>
  For the statement about a batch: the mappings created and the messages of the failures,
  read off the outcomes of the create calls, the calls numbered from \<open>n\<close>.
\<close>

definition created_of ::
  "create_call \<Rightarrow> string \<Rightarrow> AuthConfig option \<Rightarrow> nat \<Rightarrow> WiremockMapping list
    \<Rightarrow> WiremockMapping list" where
  "created_of create url auth n ms =
     concat (map (\<lambda>(k, m). case create k url m auth of Inr c \<Rightarrow> [c] | Inl ex \<Rightarrow> [])
       (enumerate n ms))"

definition failures_of ::
  "create_call \<Rightarrow> string \<Rightarrow> AuthConfig option \<Rightarrow> nat \<Rightarrow> WiremockMapping list
    \<Rightarrow> string list" where
  "failures_of create url auth n ms =
     concat (map (\<lambda>(k, m). case create k url m auth of
                   Inr c \<Rightarrow> []
                 | Inl ex \<Rightarrow> [mappingDescription m @ '': '' @ exn_Message ex])
       (enumerate n ms))"

section \<open>Facts about the transformer\<close>

lemma SetUrlMatching_Url:
  "wq_Url (SetUrlMatching r (new_WiremockRequest\<lparr>wq_Method := m\<rparr>)) =
     (if \<not> IsNullOrWhiteSpace (mq_Url r) then mq_Url r
      else if \<not> IsNullOrWhiteSpace (mq_UrlPattern r) then None
      else if \<not> IsNullOrWhiteSpace (mq_UrlPath r) then mq_UrlPath r
      else None)"
  by (simp add: SetUrlMatching_def new_WiremockRequest_def)

lemma SetUrlMatching_UrlPattern:
  "wq_UrlPattern (SetUrlMatching r (new_WiremockRequest\<lparr>wq_Method := m\<rparr>)) =
     (if \<not> IsNullOrWhiteSpace (mq_Url r) then None
      else if \<not> IsNullOrWhiteSpace (mq_UrlPattern r) then mq_UrlPattern r
      else if \<not> IsNullOrWhiteSpace (mq_UrlPath r) then None
      else if \<not> IsNullOrWhiteSpace (mq_UrlPathPattern r) then mq_UrlPathPattern r
      else if \<not> IsNullOrWhiteSpace (mq_PathTemplate r)
        then map_option (\<lambda>t. Replace (Replace t ''{'' ''([^/]+)'') ''}'' []) (mq_PathTemplate r)
      else None)"
  by (simp add: SetUrlMatching_def new_WiremockRequest_def)

text \<open>The headers and the body patterns are set after the URL matching and leave it alone.\<close>

lemma Convert_Url:
  "wq_Url (wm_Request (ConvertToWiremockMapping g mock config)) =
     wq_Url (SetUrlMatching (mc_Request mock)
       (new_WiremockRequest\<lparr>wq_Method := mq_Method (mc_Request mock)\<rparr>))"
  by (simp add: ConvertToWiremockMapping_def Let_def split: option.splits)

lemma Convert_UrlPattern:
  "wq_UrlPattern (wm_Request (ConvertToWiremockMapping g mock config)) =
     wq_UrlPattern (SetUrlMatching (mc_Request mock)
       (new_WiremockRequest\<lparr>wq_Method := mq_Method (mc_Request mock)\<rparr>))"
  by (simp add: ConvertToWiremockMapping_def Let_def split: option.splits)

lemma not_blank_is_Some: "\<not> IsNullOrWhiteSpace s \<Longrightarrow> s \<noteq> None"
  by (cases s) simp_all

text \<open>
  C1. A mock that resolves by \<open>pathTemplate\<close> is to get, for the template
  \<open>/users/{id}\<close>, exactly the pattern \<open>/users/([^/]+)\<close>, the braces and the name of the
  placeholder both gone. The code replaces the opening brace by the group and deletes the
  closing brace; the name between them stays: the pattern is \<open>/users/([^/]+)id\<close>.
\<close>

theorem C1_pathTemplate_keeps_placeholder_name:
  "wq_UrlPattern (wm_Request (ConvertToWiremockMapping newGuid
       (mock\<lparr>mc_Request := (mc_Request mock)
          \<lparr>mq_Url := None, mq_UrlPattern := None, mq_UrlPath := None,
           mq_UrlPathPattern := None, mq_PathTemplate := Some ''/users/{id}''\<rparr>\<rparr>)
       config))
   = Some ''/users/([^/]+)id''"
  by (simp add: Convert_UrlPattern SetUrlMatching_UrlPattern IsWhiteSpace_def)

text \<open>
  C4. For every mock of the canonical dialect, the URL matching of the mapping comes from
  the first of \<open>url\<close>, \<open>urlPattern\<close>, \<open>urlPath\<close>, \<open>urlPathPattern\<close>, \<open>pathTemplate\<close> that is
  present (neither \<open>null\<close> nor blank): \<open>url\<close> and \<open>urlPath\<close> go to the exact match \<open>Url\<close>,
  \<open>urlPattern\<close> and \<open>urlPathPattern\<close> to the pattern \<open>UrlPattern\<close>, a template to a pattern.
  Exactly one of \<open>Url\<close> and \<open>UrlPattern\<close> is set when one of the five is present, and none
  when none is.
\<close>

theorem C4_url_matching_resolution:
  fixes mock :: MockConfig and config :: ATOMConfig and g :: string
  defines "r \<equiv> mc_Request mock"
    and "q \<equiv> wm_Request (ConvertToWiremockMapping g mock config)"
  shows "(if \<not> IsNullOrWhiteSpace (mq_Url r)
            then wq_Url q = mq_Url r \<and> wq_UrlPattern q = None
          else if \<not> IsNullOrWhiteSpace (mq_UrlPattern r)
            then wq_Url q = None \<and> wq_UrlPattern q = mq_UrlPattern r
          else if \<not> IsNullOrWhiteSpace (mq_UrlPath r)
            then wq_Url q = mq_UrlPath r \<and> wq_UrlPattern q = None
          else if \<not> IsNullOrWhiteSpace (mq_UrlPathPattern r)
            then wq_Url q = None \<and> wq_UrlPattern q = mq_UrlPathPattern r
          else if \<not> IsNullOrWhiteSpace (mq_PathTemplate r)
            then wq_Url q = None \<and> wq_UrlPattern q \<noteq> None
          else wq_Url q = None \<and> wq_UrlPattern q = None)
         \<and> ((wq_Url q \<noteq> None) \<noteq> (wq_UrlPattern q \<noteq> None)) = hasUrlMatch r
         \<and> (wq_Url q = None \<and> wq_UrlPattern q = None) = (\<not> hasUrlMatch r)"
  unfolding r_def q_def Convert_Url Convert_UrlPattern SetUrlMatching_Url
    SetUrlMatching_UrlPattern hasUrlMatch_def
  by (auto dest: not_blank_is_Some)

theorem C4_url_matching_resolution_witness:
  "wq_Url (wm_Request (ConvertToWiremockMapping ''g'' scenario_A_mock scenario_A_config))
     = Some ''/users/{id}''
   \<and> wq_UrlPattern (wm_Request (ConvertToWiremockMapping ''g'' scenario_A_mock scenario_A_config))
     = None
   \<and> hasUrlMatch (mc_Request scenario_A_mock)"
  using C4_url_matching_resolution
    [where mock = scenario_A_mock and g = "''g''" and config = scenario_A_config]
  by (simp add: scenario_A_mock_def IsWhiteSpace_def hasUrlMatch_def)

subsection \<open>Priority\<close>

lemma CreateMappingAsync_fst:
  "fst (CreateMappingAsync guid m st) = m\<lparr>wm_Id := Some (guid (drawn st))\<rparr>"
  by (simp add: CreateMappingAsync_def NewGuid_def Let_def)

lemma GenerateMappingsFromATOM_loop_priority:
  "map wm_Priority (fst (GenerateMappingsFromATOM_loop guid config ms st)) =
     map (priority_of config) ms"
proof (induction ms arbitrary: st)
  case Nil
  show ?case by simp
next
  case (Cons mock rest)
  have "wm_Priority (ConvertToWiremockMapping g mock config) = priority_of config mock" for g
    by (simp add: ConvertToWiremockMapping_def priority_of_def Let_def)
  with Cons show ?case
    by (simp add: CreateMappingAsync_def NewGuid_def Let_def case_prod_beta)
qed

text \<open>
  C9. For every mock of the canonical dialect, the priority of the mapping is the mock's own
  priority when it has one, else the \<open>defaults.priority\<close> of the document when it has one,
  else there is none; and the mappings a document generates carry these priorities in the
  order of its mocks. With the default 5, a mock without priority yields 5 and a mock with
  priority 2 yields 2.
\<close>

theorem C9_priority_resolution:
  "wm_Priority (ConvertToWiremockMapping g mock config) =
     (case mc_Priority mock of
        Some p \<Rightarrow> Some p
      | None \<Rightarrow> (case ac_Defaults config of None \<Rightarrow> None | Some d \<Rightarrow> df_Priority d))
   \<and> (ac_Mocks config = Some mocks \<longrightarrow>
        (\<exists>generated st'.
           GenerateMappingsFromATOMAsync guid config st = Inr (generated, st')
           \<and> map wm_Priority generated = map (priority_of config) mocks))"
proof (intro conjI impI)
  show "wm_Priority (ConvertToWiremockMapping g mock config) =
     (case mc_Priority mock of
        Some p \<Rightarrow> Some p
      | None \<Rightarrow> (case ac_Defaults config of None \<Rightarrow> None | Some d \<Rightarrow> df_Priority d))"
    by (simp add: ConvertToWiremockMapping_def Let_def)
next
  assume mocks: "ac_Mocks config = Some mocks"
  obtain generated st' where
    loop: "GenerateMappingsFromATOM_loop guid config mocks st = (generated, st')"
    by (cases "GenerateMappingsFromATOM_loop guid config mocks st")
  have "map wm_Priority generated = map (priority_of config) mocks"
    using GenerateMappingsFromATOM_loop_priority [of guid config mocks st] loop by simp
  moreover have "GenerateMappingsFromATOMAsync guid config st = Inr (generated, st')"
    using mocks loop by (simp add: GenerateMappingsFromATOMAsync_def)
  ultimately show "\<exists>generated st'.
      GenerateMappingsFromATOMAsync guid config st = Inr (generated, st')
      \<and> map wm_Priority generated = map (priority_of config) mocks"
    by blast
qed

theorem C9_priority_resolution_witness:
  "\<exists>generated st'.
     GenerateMappingsFromATOMAsync example_guid scenario_D_config empty_service
       = Inr (generated, st')
     \<and> map wm_Priority generated = [Some 5, Some 2]"
  using C9_priority_resolution
    [where config = scenario_D_config and guid = example_guid and st = empty_service
       and mocks = "[scenario_A_mock, scenario_A_mock\<lparr>mc_Priority := Some 2\<rparr>]"]
  by (simp add: scenario_D_config_def scenario_A_mock_def priority_of_def)

subsection \<open>Blank URL fields\<close>

lemma IsNullOrWhiteSpace_absent_if [simp]:
  "IsNullOrWhiteSpace (absent_if b s) = IsNullOrWhiteSpace s"
  by (simp add: absent_if_def)

lemma absent_if_not_blank [simp]: "\<not> IsNullOrWhiteSpace s \<Longrightarrow> absent_if b s = s"
  by (simp add: absent_if_def)

lemma SetUrlMatching_without_blank_urls:
  "SetUrlMatching (without_blank_urls b1 b2 b3 b4 b5 r) w = SetUrlMatching r w"
  by (simp add: SetUrlMatching_def without_blank_urls_def)

lemma hasUrlMatch_without_blank_urls:
  "hasUrlMatch (without_blank_urls b1 b2 b3 b4 b5 r) = hasUrlMatch r"
  by (simp add: hasUrlMatch_def without_blank_urls_def)

lemma urlConflict_without_blank_urls:
  "urlConflict (without_blank_urls b1 b2 b3 b4 b5 r) = urlConflict r"
  by (simp add: urlConflict_def without_blank_urls_def)

lemma Convert_without_blank_urls:
  "ConvertToWiremockMapping g
     (mock\<lparr>mc_Request := without_blank_urls b1 b2 b3 b4 b5 (mc_Request mock)\<rparr>) config
   = ConvertToWiremockMapping g mock config"
proof -
  let ?mock' = "mock\<lparr>mc_Request := without_blank_urls b1 b2 b3 b4 b5 (mc_Request mock)\<rparr>"
  have "request_headers ?mock' config = request_headers mock config"
    by (simp add: request_headers_def without_blank_urls_def)
  moreover have "request_body_patterns ?mock' = request_body_patterns mock"
    by (simp add: request_body_patterns_def without_blank_urls_def)
  moreover have "response_headers ?mock' config = response_headers mock config"
    by (simp add: response_headers_def)
  moreover have "response_body ?mock' = response_body mock"
    by (simp add: response_body_def fun_eq_iff)
  moreover have "mq_Method (without_blank_urls b1 b2 b3 b4 b5 (mc_Request mock))
      = mq_Method (mc_Request mock)"
    by (simp add: without_blank_urls_def)
  ultimately show ?thesis
    by (simp add: ConvertToWiremockMapping_def SetUrlMatching_without_blank_urls)
qed

lemma ValidateATOMConfig_mock_without_blank_urls:
  "ValidateATOMConfig_mock rt i
     (mock\<lparr>mc_Request := without_blank_urls b1 b2 b3 b4 b5 (mc_Request mock)\<rparr>)
   = ValidateATOMConfig_mock rt i mock"
proof -
  have meth: "mq_Method (without_blank_urls b1 b2 b3 b4 b5 (mc_Request mock))
      = mq_Method (mc_Request mock)"
    by (simp add: without_blank_urls_def)
  have request: "mc_Request (mock\<lparr>mc_Request := r\<rparr>) = r" for r
    by simp
  have response: "mc_Response (mock\<lparr>mc_Request := r\<rparr>) = mc_Response mock" for r
    by simp
  show ?thesis
    unfolding ValidateATOMConfig_mock_def Let_def request response meth
      hasUrlMatch_without_blank_urls urlConflict_without_blank_urls
    by (rule refl)
qed

lemma enumerate_map_snd:
  "enumerate n (map f xs) = map (\<lambda>(i, x). (i, f x)) (enumerate n xs)"
  by (induction xs arbitrary: n) simp_all

text \<open>
  C10. At the validation and the transformation of the server, a URL field (\<open>url\<close>,
  \<open>urlPattern\<close>, \<open>urlPath\<close>, \<open>urlPathPattern\<close>, \<open>pathTemplate\<close>) that is empty or blank counts
  as an absent one: with any of the blank ones set to \<open>null\<close>, the test of presence and the
  test of conflict give the same answer, the validation gives the same result, and the
  transformer gives the same mapping, so that its chain goes on to the next field.
\<close>

theorem C10_blank_url_field_counts_as_absent:
  "hasUrlMatch (without_blank_urls b1 b2 b3 b4 b5 r) = hasUrlMatch r
   \<and> urlConflict (without_blank_urls b1 b2 b3 b4 b5 r) = urlConflict r
   \<and> ValidateATOMConfig rt
        (config\<lparr>ac_Mocks :=
           map_option
             (map (\<lambda>m. m\<lparr>mc_Request := without_blank_urls b1 b2 b3 b4 b5 (mc_Request m)\<rparr>))
             (ac_Mocks config)\<rparr>)
       = ValidateATOMConfig rt config
   \<and> ConvertToWiremockMapping g
        (mock\<lparr>mc_Request := without_blank_urls b1 b2 b3 b4 b5 (mc_Request mock)\<rparr>) config
       = ConvertToWiremockMapping g mock config"
proof (intro conjI)
  let ?f = "\<lambda>m. m\<lparr>mc_Request := without_blank_urls b1 b2 b3 b4 b5 (mc_Request m)\<rparr>"
  let ?config' = "config\<lparr>ac_Mocks := map_option (map ?f) (ac_Mocks config)\<rparr>"
  have each:
    "(case ac_Mocks ?config' of None \<Rightarrow> None
      | Some ms \<Rightarrow> if length ms = 0 then None
          else Some (map (\<lambda>(i, m). ValidateATOMConfig_mock rt i m) (enumerate 0 ms)))
     = (case ac_Mocks config of None \<Rightarrow> None
      | Some ms \<Rightarrow> if length ms = 0 then None
          else Some (map (\<lambda>(i, m). ValidateATOMConfig_mock rt i m) (enumerate 0 ms)))"
    by (cases "ac_Mocks config")
      (simp_all add: enumerate_map_snd case_prod_beta comp_def
        ValidateATOMConfig_mock_without_blank_urls)
  have others: "ac_Version ?config' = ac_Version config" "ac_Target ?config' = ac_Target config"
    "ac_Defaults ?config' = ac_Defaults config"
    by simp_all
  show "ValidateATOMConfig rt ?config' = ValidateATOMConfig rt config"
    unfolding ValidateATOMConfig_def each others by (rule refl)
qed (simp_all add: hasUrlMatch_without_blank_urls urlConflict_without_blank_urls
       Convert_without_blank_urls)

theorem C10_blank_url_field_counts_as_absent_witness:
  "without_blank_urls True True True True True (mc_Request blank_url_mock)
     = (mc_Request blank_url_mock)\<lparr>mq_Url := None\<rparr>
   \<and> ConvertToWiremockMapping ''g''
        (blank_url_mock\<lparr>mc_Request := (mc_Request blank_url_mock)\<lparr>mq_Url := None\<rparr>\<rparr>)
        scenario_A_config
       = ConvertToWiremockMapping ''g'' blank_url_mock scenario_A_config
   \<and> wq_Url (wm_Request (ConvertToWiremockMapping ''g'' blank_url_mock scenario_A_config))
       = None
   \<and> wq_UrlPattern (wm_Request (ConvertToWiremockMapping ''g'' blank_url_mock scenario_A_config))
       = Some ''/a.*''"
proof -
  have eq: "without_blank_urls True True True True True (mc_Request blank_url_mock)
     = (mc_Request blank_url_mock)\<lparr>mq_Url := None\<rparr>"
    by (simp add: without_blank_urls_def absent_if_def blank_url_mock_def IsWhiteSpace_def)
  show ?thesis
    using C10_blank_url_field_counts_as_absent
      [where ?b1.0 = True and ?b2.0 = True and ?b3.0 = True and ?b4.0 = True and ?b5.0 = True
         and mock = blank_url_mock and g = "''g''" and config = scenario_A_config]
    unfolding eq
    by (simp add: Convert_Url Convert_UrlPattern SetUrlMatching_Url SetUrlMatching_UrlPattern
        blank_url_mock_def IsWhiteSpace_def)
qed

subsection \<open>The legacy dialect\<close>

text \<open>
  C3. A legacy mapping is to get a fresh id only if it carries none, and an id it carries
  is to be kept. \<open>GenerateMappingsAsync\<close> tests the id and draws one only for a blank id,
  but then calls \<open>CreateMappingAsync\<close>, which assigns a new GUID to every mapping: the
  mapping that came with the id \<open>stub-1\<close> leaves with the GUID drawn for it.
\<close>

theorem C3_preexisting_id_is_replaced:
  "GenerateMappingsAsync guid
     (config\<lparr>jc_Mappings := Some [mapping\<lparr>wm_Id := Some ''stub-1''\<rparr>]\<rparr>) st
   = Inr ([mapping\<lparr>wm_Id := Some (guid (drawn st))\<rparr>],
          st\<lparr>drawn := Suc (drawn st),
             mappings := (mappings st)
               (guid (drawn st) \<mapsto> mapping\<lparr>wm_Id := Some (guid (drawn st))\<rparr>)\<rparr>)"
  by (simp add: GenerateMappingsAsync_def CreateMappingAsync_def NewGuid_def Let_def
      IsWhiteSpace_def)

section \<open>Facts about the validation\<close>

lemma result_IsValid:
  "IsValid \<lparr>IsValid = (length e = 0), Errors = e, Warnings = w\<rparr>
     = (length (Errors \<lparr>IsValid = (length e = 0), Errors = e, Warnings = w\<rparr>) = 0)"
  by simp

lemma ValidateATOMConfig_IsValid:
  "IsValid (ValidateATOMConfig rt config) = (length (Errors (ValidateATOMConfig rt config)) = 0)"
  unfolding ValidateATOMConfig_def Let_def by (rule result_IsValid)

lemma ValidateConfig_IsValid:
  "IsValid (ValidateConfig config) = (length (Errors (ValidateConfig config)) = 0)"
  unfolding ValidateConfig_def Let_def by (rule result_IsValid)

lemma root_error_IsValid:
  "IsValid (root_error rt m) = (length (Errors (root_error rt m)) = 0)"
  by (simp add: root_error_def)

lemma ValidateConfigFromJson_try_IsValid:
  assumes "ValidateConfigFromJson_try rt j = Inr r"
  shows "IsValid r = (length (Errors r) = 0)"
proof -
  from assms have "(\<exists>c. r = ValidateATOMConfig rt c) \<or> (\<exists>c. r = ValidateConfig c)
      \<or> (\<exists>m. r = root_error rt m)"
    unfolding ValidateConfigFromJson_try_def Let_def
    by (auto split: sum.splits option.splits if_splits)
  then show ?thesis
    using ValidateATOMConfig_IsValid ValidateConfig_IsValid root_error_IsValid by metis
qed

lemma ValidateConfigFromJson_IsValid:
  "IsValid (ValidateConfigFromJson rt j) = (length (Errors (ValidateConfigFromJson rt j)) = 0)"
proof (cases "ValidateConfigFromJson_try rt j")
  case (Inl ex)
  then show ?thesis
    by (cases ex) (simp_all add: ValidateConfigFromJson_def root_error_IsValid)
next
  case (Inr r)
  then show ?thesis
    using ValidateConfigFromJson_try_IsValid [OF Inr] by (simp add: ValidateConfigFromJson_def)
qed

lemma validateATOMConfig_IsValid:
  "IsValid (validateATOMConfig js config)
     = (length (Errors (validateATOMConfig js config)) = 0)"
proof (cases "\<not> truthy config \<or> typeof config \<noteq> ''object''")
  case True
  then show ?thesis
    unfolding validateATOMConfig_def by (simp only: if_True ValidationResult.simps) simp
next
  case False
  show ?thesis
  proof (cases "validateBusinessLogic js config")
    case (Inl ex)
    with False show ?thesis
      unfolding validateATOMConfig_def Let_def by (simp only: if_False sum.case) simp
  next
    case (Inr businessErrors)
    with False show ?thesis
      unfolding validateATOMConfig_def Let_def
      by (simp only: if_False sum.case) (rule result_IsValid)
  qed
qed

text \<open>
  C5. For every input, the result of the validation has \<open>isValid\<close> exactly when its list
  of errors is empty, whatever its warnings: so for the validation of a canonical document
  and of a legacy document, for the orchestrator over raw JSON, and for the validation of
  the client.
\<close>

theorem C5_isValid_iff_no_errors:
  "IsValid (ValidateATOMConfig rt atomConfig)
     = (length (Errors (ValidateATOMConfig rt atomConfig)) = 0)
   \<and> IsValid (ValidateConfig legacyConfig)
     = (length (Errors (ValidateConfig legacyConfig)) = 0)
   \<and> IsValid (ValidateConfigFromJson rt jsonElement)
     = (length (Errors (ValidateConfigFromJson rt jsonElement)) = 0)
   \<and> IsValid (validateATOMConfig js config)
     = (length (Errors (validateATOMConfig js config)) = 0)"
  using ValidateATOMConfig_IsValid ValidateConfig_IsValid ValidateConfigFromJson_IsValid
    validateATOMConfig_IsValid
  by blast

theorem C5_isValid_iff_no_errors_witness:
  "IsValid (ValidateConfig legacy_config)
   \<and> Errors (ValidateConfig legacy_config) = []
   \<and> Warnings (ValidateConfig legacy_config)
       = [warning ''version'' ''Configuration version is recommended'']
   \<and> IsValid (validateATOMConfig example_engine (JString ''x'')) = False
   \<and> length (Errors (validateATOMConfig example_engine (JString ''x''))) = 1"
  using C5_isValid_iff_no_errors
    [where legacyConfig = legacy_config and js = example_engine and config = "JString ''x''"]
  by (simp add: ValidateConfig_def ValidateConfig_mapping_def legacy_config_def
      legacy_mapping_def validateATOMConfig_def IsWhiteSpace_def Let_def)

text \<open>
  C6. For every raw input the orchestrator returns a result: what the \<open>try\<close> block returns,
  or, when the classification (\<open>TryGetProperty\<close> on an element that is no object) or the
  deserialization throws, the result that is not valid and has exactly one error, at
  \<open>root\<close>, whose message is the prefix of the handler followed by the message of the
  exception. The handlers throw nothing; and the validation of the deserialized object
  throws nothing in the model, where the members it dereferences are never \<open>null\<close>.
\<close>

theorem C6_exception_becomes_one_root_error:
  "(ValidateConfigFromJson_try rt j = Inl ex \<longrightarrow>
      ValidateConfigFromJson rt j =
        \<lparr>IsValid = False,
         Errors = [\<lparr>Path = ''root'',
                    Message = (case ex of JsonException m \<Rightarrow> ''JSON parsing error: ''
                               | OtherException m \<Rightarrow> ''Validation error: '') @ exn_Message ex,
                    Severity = ''error''\<rparr>],
         Warnings = NewWarnings rt\<rparr>)
   \<and> (ValidateConfigFromJson_try rt j = Inr r \<longrightarrow> ValidateConfigFromJson rt j = r)
   \<and> (ValidateConfigFromJson_try rt j = Inl ex \<longleftrightarrow>
        TryGetProperty rt j ''mocks'' = Inl ex
        \<or> (\<exists>ms. TryGetProperty rt j ''mocks'' = Inr (Some (JArray ms)))
            \<and> DeserializeATOM rt j = Inl ex
        \<or> (\<exists>p. TryGetProperty rt j ''mocks'' = Inr p \<and> (\<forall>ms. p \<noteq> Some (JArray ms)))
            \<and> DeserializeLegacy rt j = Inl ex)"
proof (intro conjI impI)
  assume "ValidateConfigFromJson_try rt j = Inl ex"
  then show "ValidateConfigFromJson rt j =
        \<lparr>IsValid = False,
         Errors = [\<lparr>Path = ''root'',
                    Message = (case ex of JsonException m \<Rightarrow> ''JSON parsing error: ''
                               | OtherException m \<Rightarrow> ''Validation error: '') @ exn_Message ex,
                    Severity = ''error''\<rparr>],
         Warnings = NewWarnings rt\<rparr>"
    by (cases ex) (simp_all add: ValidateConfigFromJson_def root_error_def error_def)
next
  assume "ValidateConfigFromJson_try rt j = Inr r"
  then show "ValidateConfigFromJson rt j = r"
    by (simp add: ValidateConfigFromJson_def)
next
  show "ValidateConfigFromJson_try rt j = Inl ex \<longleftrightarrow>
        TryGetProperty rt j ''mocks'' = Inl ex
        \<or> (\<exists>ms. TryGetProperty rt j ''mocks'' = Inr (Some (JArray ms)))
            \<and> DeserializeATOM rt j = Inl ex
        \<or> (\<exists>p. TryGetProperty rt j ''mocks'' = Inr p \<and> (\<forall>ms. p \<noteq> Some (JArray ms)))
            \<and> DeserializeLegacy rt j = Inl ex"
    unfolding ValidateConfigFromJson_try_def Let_def
    by (auto split: sum.splits option.splits json.splits)
qed

theorem C6_exception_becomes_one_root_error_witness:
  "ValidateConfigFromJson example_runtime (JObject [(''mocks'', JArray [])]) =
     \<lparr>IsValid = False,
      Errors = [\<lparr>Path = ''root'',
                 Message = ''JSON parsing error: The JSON value could not be converted'',
                 Severity = ''error''\<rparr>],
      Warnings = []\<rparr>
   \<and> ValidateConfigFromJson example_runtime (JArray []) =
     \<lparr>IsValid = False,
      Errors = [\<lparr>Path = ''root'',
                 Message = ''Validation error: The requested operation requires an element of type Object'',
                 Severity = ''error''\<rparr>],
      Warnings = []\<rparr>"
proof -
  have atom: "ValidateConfigFromJson_try example_runtime (JObject [(''mocks'', JArray [])])
      = Inl (JsonException ''The JSON value could not be converted'')"
    by (simp add: ValidateConfigFromJson_try_def TryGetProperty_def example_runtime_def)
  have other: "ValidateConfigFromJson_try example_runtime (JArray [])
      = Inl (OtherException ''The requested operation requires an element of type Object'')"
    by (simp add: ValidateConfigFromJson_try_def TryGetProperty_def example_runtime_def)
  show ?thesis
    using C6_exception_becomes_one_root_error
        [where rt = example_runtime and j = "JObject [(''mocks'', JArray [])]"
           and ex = "JsonException ''The JSON value could not be converted''"]
      C6_exception_becomes_one_root_error
        [where rt = example_runtime and j = "JArray []"
           and ex = "OtherException ''The requested operation requires an element of type Object''"]
      atom other
    by (simp add: example_runtime_def)
qed

section \<open>Facts about the deployment\<close>

lemma CreateMappings_loop_eq:
  "CreateMappings_loop create url auth n ms (cs, fs) =
     (cs @ created_of create url auth n ms, fs @ failures_of create url auth n ms)"
proof (induction ms arbitrary: n cs fs)
  case Nil
  show ?case by (simp add: created_of_def failures_of_def)
next
  case (Cons m ms)
  show ?case
    by (cases "create n url m auth") (simp_all add: Cons created_of_def failures_of_def)
qed

lemma created_failures_length:
  "length (created_of create url auth n ms) + length (failures_of create url auth n ms)
     = length ms"
proof (induction ms arbitrary: n)
  case Nil
  show ?case by (simp add: created_of_def failures_of_def)
next
  case (Cons m ms)
  from Cons [of "Suc n"] show ?case
    by (cases "create n url m auth") (simp_all add: created_of_def failures_of_def)
qed

text \<open>
  C2, with the list of failures in the result, fails: the result of the batch has none. With
  the second of three create calls failing, the endpoint answers success with the count 2
  and the two mappings created; the answer is the same whatever the failure was, while the
  list \<open>failures\<close> inside \<open>CreateMappingsAsync\<close>, which is only logged, differs.
\<close>

theorem C2_failures_absent_from_result_counterexample:
  "DeployMappings (second_call_fails ''boom'') batch_request =
     Ok \<lparr>success = True,
         message = ''Successfully deployed 2 mappings to http://localhost:8080'',
         deployed =
           \<lparr>target = ''http://localhost:8080'', mappingsCount = 2,
            deployed_mappings =
              [\<lparr>de_id = None, de_method = Some ''GET'', de_url = Some ''/a''\<rparr>,
               \<lparr>de_id = None, de_method = Some ''GET'', de_url = Some ''/c''\<rparr>]\<rparr>\<rparr>
   \<and> DeployMappings (second_call_fails ''bang'') batch_request
       = DeployMappings (second_call_fails ''boom'') batch_request
   \<and> snd (CreateMappings_loop (second_call_fails ''boom'') ''http://localhost:8080'' None 0
            batch ([], [])) = [''GET /b: boom'']
   \<and> snd (CreateMappings_loop (second_call_fails ''bang'') ''http://localhost:8080'' None 0
            batch ([], [])) = [''GET /b: bang'']"
  by (simp add: DeployMappings_def CreateMappingsAsync_def batch_request_def batch_def
      batch_mapping_def legacy_mapping_def second_call_fails_def deployed_entry_of_def
      mappingDescription_def IsWhiteSpace_def digit_char_def string_of_nat.simps)

text \<open>
  C2, amended. For every batch, each create call is made, in order, whatever the calls
  before it did; the mappings created and the messages of the failures are collected in two
  lists, one entry for each mapping between them. \<open>CreateMappingsAsync\<close> returns the
  mappings created, and the endpoint, for a target and at least one mapping, answers success
  with their count and their entries: the failures are not in the result. Nothing is
  thrown.
\<close>

theorem C2_batch_attempts_every_mapping:
  "CreateMappings_loop create url auth 0 ms ([], [])
     = (created_of create url auth 0 ms, failures_of create url auth 0 ms)
   \<and> length (created_of create url auth 0 ms) + length (failures_of create url auth 0 ms)
       = length ms
   \<and> CreateMappingsAsync create url ms auth = created_of create url auth 0 ms
   \<and> (\<not> IsNullOrWhiteSpace (Some url) \<and> ms \<noteq> [] \<longrightarrow>
        DeployMappings create \<lparr>TargetUrl = Some url, Mappings = Some ms, Auth = auth\<rparr> =
          Ok \<lparr>success = True,
              message = ''Successfully deployed ''
                @ string_of_nat (length (created_of create url auth 0 ms))
                @ '' mappings to '' @ url,
              deployed =
                \<lparr>target = url,
                 mappingsCount = length (created_of create url auth 0 ms),
                 deployed_mappings =
                   map deployed_entry_of (created_of create url auth 0 ms)\<rparr>\<rparr>)"
proof (intro conjI impI)
  show loop: "CreateMappings_loop create url auth 0 ms ([], [])
     = (created_of create url auth 0 ms, failures_of create url auth 0 ms)"
    using CreateMappings_loop_eq [of create url auth 0 ms "[]" "[]"] by simp
  then show async: "CreateMappingsAsync create url ms auth = created_of create url auth 0 ms"
    by (simp add: CreateMappingsAsync_def)
  show "length (created_of create url auth 0 ms) + length (failures_of create url auth 0 ms)
       = length ms"
    by (rule created_failures_length)
  assume "\<not> IsNullOrWhiteSpace (Some url) \<and> ms \<noteq> []"
  then show "DeployMappings create \<lparr>TargetUrl = Some url, Mappings = Some ms, Auth = auth\<rparr> =
          Ok \<lparr>success = True,
              message = ''Successfully deployed ''
                @ string_of_nat (length (created_of create url auth 0 ms))
                @ '' mappings to '' @ url,
              deployed =
                \<lparr>target = url,
                 mappingsCount = length (created_of create url auth 0 ms),
                 deployed_mappings =
                   map deployed_entry_of (created_of create url auth 0 ms)\<rparr>\<rparr>"
    by (simp add: DeployMappings_def async Let_def)
qed

theorem C2_batch_attempts_every_mapping_witness:
  "created_of (second_call_fails ''boom'') ''http://localhost:8080'' None 0 batch
     = [batch_mapping ''/a'', batch_mapping ''/c'']
   \<and> failures_of (second_call_fails ''boom'') ''http://localhost:8080'' None 0 batch
     = [''GET /b: boom'']
   \<and> (\<exists>body. DeployMappings (second_call_fails ''boom'') batch_request = Ok body
        \<and> success body \<and> mappingsCount (deployed body) = 2)"
proof -
  have created: "created_of (second_call_fails ''boom'') ''http://localhost:8080'' None 0 batch
     = [batch_mapping ''/a'', batch_mapping ''/c'']"
    by (simp add: created_of_def batch_def second_call_fails_def)
  have failures: "failures_of (second_call_fails ''boom'') ''http://localhost:8080'' None 0 batch
     = [''GET /b: boom'']"
    by (simp add: failures_of_def batch_def second_call_fails_def batch_mapping_def
        mappingDescription_def)
  have request: "batch_request =
      \<lparr>TargetUrl = Some ''http://localhost:8080'', Mappings = Some batch, Auth = None\<rparr>"
    by (simp add: batch_request_def)
  have ok: "\<not> IsNullOrWhiteSpace (Some ''http://localhost:8080'') \<and> batch \<noteq> []"
    by (simp add: IsWhiteSpace_def batch_def)
  show ?thesis
    using C2_batch_attempts_every_mapping
      [where create = "second_call_fails ''boom''" and url = "''http://localhost:8080''"
         and auth = None and ms = batch]
      ok
    unfolding created failures request by simp
qed

section \<open>Facts about the validation of the client\<close>

text \<open>
  C7. The completeness of \<open>target.auth\<close> is to be tested once for a document, and an
  incomplete authentication is to give exactly one error at \<open>target.auth\<close>, however many
  mocks there are. \<open>ValidateATOMConfig\<close> of the server does so, after its loop over the mocks. In
  \<open>validateBusinessLogic\<close> of the client the test stands inside the callback of
  \<open>forEach\<close>: a document with two mocks and a \<open>basic\<close> authentication without password
  gets the error twice, and the same document without mocks gets none.
\<close>

theorem C7_client_tests_auth_once_per_mock:
  "validateBusinessLogic js (json_config [json_mock, json_mock]) =
     Inr [\<lparr>Path = ''target.auth'',
           Message = ''Basic authentication requires both username and password'',
           Severity = ''error''\<rparr>,
          \<lparr>Path = ''target.auth'',
           Message = ''Basic authentication requires both username and password'',
           Severity = ''error''\<rparr>]
   \<and> validateBusinessLogic js (json_config []) = Inr []"
  by (simp add: validateBusinessLogic_def validateBusinessLogic_mock_def auth_errors_def
      target_auth_def js_get_def bindE_def json_config_def json_mock_def Let_def error_def)

text \<open>The server tests the authentication once: at most one error at \<open>target.auth\<close>.\<close>

lemma ValidateATOMConfig_auth_once:
  "length (filter (\<lambda>e. Path e = ''target.auth'') (ValidateATOMConfig_auth auth)) =
     (if ToLower (au_Type auth) = ''basic''
         \<and> (IsNullOrWhiteSpace (au_Username auth) \<or> IsNullOrWhiteSpace (au_Password auth))
         \<or> ToLower (au_Type auth) = ''bearer'' \<and> IsNullOrWhiteSpace (au_Token auth)
      then 1 else 0)"
  by (auto simp add: ValidateATOMConfig_auth_def error_def)

text \<open>
  No error of a mock is at \<open>target.auth\<close>: for a document, the errors there are those of
  the one test of the authentication.
\<close>

lemma mock_errors_elsewhere:
  "filter (\<lambda>e. Path e = ''target.auth'') (fst (ValidateATOMConfig_mock rt i mock)) = []"
  by (simp add: ValidateATOMConfig_mock_def Let_def error_def split: option.split)

lemma mocks_errors_elsewhere:
  "filter (\<lambda>e. Path e = ''target.auth'')
     (concat (map (fst \<circ> (\<lambda>(i, m). ValidateATOMConfig_mock rt i m)) ims)) = []"
  by (induction ims) (simp_all add: case_prod_beta mock_errors_elsewhere)

lemma ValidateATOMConfig_auth_once_per_document:
  assumes "ac_Target config = Some tgt" and "tg_Auth tgt = Some auth"
  shows "length (filter (\<lambda>e. Path e = ''target.auth'') (Errors (ValidateATOMConfig rt config))) =
     (if ToLower (au_Type auth) = ''basic''
         \<and> (IsNullOrWhiteSpace (au_Username auth) \<or> IsNullOrWhiteSpace (au_Password auth))
         \<or> ToLower (au_Type auth) = ''bearer'' \<and> IsNullOrWhiteSpace (au_Token auth)
      then 1 else 0)"
proof -
  have tgt_errors: "length (filter (\<lambda>e. Path e = ''target.auth'') (ValidateATOMConfig_target rt tgt))
      = length (filter (\<lambda>e. Path e = ''target.auth'') (ValidateATOMConfig_auth auth))"
    using assms(2) by (simp add: ValidateATOMConfig_target_def error_def split: option.split)
  show ?thesis
    using assms(1) tgt_errors
    by (simp add: ValidateATOMConfig_def Let_def mocks_errors_elsewhere error_def
        ValidateATOMConfig_auth_once split: option.split)
qed

text \<open>
  C8, for every value, fails at a value that fails the type of the schema: \<open>validate\<close>
  returns the error of the type at once and does not come to \<open>oneOf\<close>. The string \<open>x\<close>
  against the schema of a response body passes both alternatives without error, more than
  one; the result is the one error of the type, and no error of \<open>oneOf\<close>.
\<close>

theorem C8_type_mismatch_precedes_oneOf_counterexample:
  "validate example_engine (JString ''x'') body_schema ''body''
     = [\<lparr>Path = ''body'', Message = ''Expected object, got string'', Severity = ''error''\<rparr>]
   \<and> s_oneOf body_schema = Some [inline_branch, file_branch]
   \<and> validate example_engine (JString ''x'') inline_branch ''body'' = []
   \<and> validate example_engine (JString ''x'') file_branch ''body'' = []"
  by (simp add: body_schema_def inline_branch_def file_branch_def type_mismatch_def error_def
      required_errors_def enum_errors_def minimum_errors_def format_errors_def)

text \<open>
  C8, amended. For every value that passes the type test of a schema with \<open>oneOf\<close> (or
  when the schema names no type), \<open>validate\<close> validates the value against every
  alternative, counts those that give no error, and adds to the errors of the other
  annotations: the error that no alternative matches when the count is zero, the error that
  several match when it is more than one, and nothing when it is exactly one. For a value
  that fails the type test, the result is the one error of the type, with \<open>oneOf\<close> or
  without.
\<close>

theorem C8_oneOf_after_type_test:
  fixes rt :: js_runtime and data :: json and subSchemas :: "schema list" and path :: string
    and ty :: "string option" and req :: "string list option" and en :: "json list option"
    and mn :: "rat option" and fmt :: "string option"
    and props :: "(string \<times> schema) list option" and items :: "schema option"
    and addl :: "schema option"
  defines "matching \<equiv>
      length (filter (\<lambda>subSchema. length (validate rt data subSchema path) = 0) subSchemas)"
    and "with_oneOf \<equiv>
      validate rt data (Schema ty req en mn fmt props items addl (Some subSchemas)) path"
    and "without_oneOf \<equiv> validate rt data (Schema ty req en mn fmt props items addl None) path"
  shows "(type_mismatch ty data = None \<longrightarrow>
            with_oneOf = without_oneOf
              @ (if matching = 0
                 then [error path ''Data does not match any of the required schemas'']
                 else if matching > 1
                 then [error path ''Data matches multiple schemas when only one is allowed'']
                 else []))
       \<and> (\<forall>expected. type_mismatch ty data = Some expected \<longrightarrow>
            with_oneOf = [error path (''Expected '' @ expected @ '', got '' @ typeof data)]
            \<and> without_oneOf = with_oneOf)"
proof (cases "type_mismatch ty data")
  case None
  then have eq: "with_oneOf = without_oneOf @ oneOf_errors matching path"
    unfolding matching_def with_oneOf_def without_oneOf_def by simp
  show ?thesis
    unfolding eq using None by (simp add: oneOf_errors_def)
next
  case (Some expected)
  then have eq: "with_oneOf = [error path (''Expected '' @ expected @ '', got '' @ typeof data)]"
    "without_oneOf = [error path (''Expected '' @ expected @ '', got '' @ typeof data)]"
    unfolding with_oneOf_def without_oneOf_def by simp_all
  show ?thesis
    unfolding eq using Some by simp
qed

theorem C8_oneOf_after_type_test_witness:
  "validate example_engine
     (JObject [(''type'', JString ''inline''), (''value'', JNumber 3), (''fileName'', JNumber 3)])
     body_schema ''body''
   = [\<lparr>Path = ''body.value'', Message = ''Expected string, got number'', Severity = ''error''\<rparr>,
      \<lparr>Path = ''body.fileName'', Message = ''Expected string, got number'',
        Severity = ''error''\<rparr>,
      \<lparr>Path = ''body'', Message = ''Data does not match any of the required schemas'',
        Severity = ''error''\<rparr>]"
proof -
  let ?data = "JObject [(''type'', JString ''inline''), (''value'', JNumber 3),
    (''fileName'', JNumber 3)]"
  have ty: "type_mismatch (Some ''object'') ?data = None"
    by (simp add: type_mismatch_def)
  have none: "filter (\<lambda>s. length (validate example_engine ?data s ''body'') = 0)
      [inline_branch, file_branch] = []"
    by (simp add: inline_branch_def file_branch_def type_mismatch_def error_def
        required_errors_def enum_errors_def minimum_errors_def format_errors_def
        no_annotation_def of_type_def sub_path_def)
  have rest: "validate example_engine ?data
      (Schema (Some ''object'') None None None None
         (Some [(''type'', of_enum [''inline'', ''file'']), (''value'', of_type ''string''),
                (''fileName'', of_type ''string''), (''templating'', of_type ''boolean'')])
         None None None) ''body''
    = [\<lparr>Path = ''body.value'', Message = ''Expected string, got number'', Severity = ''error''\<rparr>,
       \<lparr>Path = ''body.fileName'', Message = ''Expected string, got number'',
         Severity = ''error''\<rparr>]"
    by (simp add: type_mismatch_def error_def required_errors_def enum_errors_def
        minimum_errors_def format_errors_def of_enum_def of_type_def sub_path_def
        js_includes_def)
  show ?thesis
    unfolding body_schema_def
    using C8_oneOf_after_type_test [where rt = example_engine and data = ?data
        and ty = "Some ''object''"
        and subSchemas = "[inline_branch, file_branch]" and path = "''body''"
        and req = None and en = None and mn = None and fmt = None and items = None and addl = None
        and props = "Some [(''type'', of_enum [''inline'', ''file'']),
          (''value'', of_type ''string''), (''fileName'', of_type ''string''),
          (''templating'', of_type ''boolean'')]"]
      ty
    unfolding none rest by (simp add: error_def)
qed

end
